theory Spec2Isabelle
  imports Main
begin

section \<open>Python values, exceptions and the database\<close>

text \<open>
  The forms of \<^verbatim>\<open>djangocms_url_manager/forms.py\<close> run inside Django: they read and
  write the dict \<^verbatim>\<open>cleaned_data\<close>, record messages with \<^verbatim>\<open>add_error\<close> and query the
  database through the ORM. The embedding keeps these as explicit values: a dict is a map
  from keys to values, the database is a record of tables, and every exception of the
  source is a value \<open>Inl e\<close> of the result type \<open>exn + 'a\<close>.
\<close>

datatype site = Site (site_pk: int) (site_domain: string)

text \<open>
  An instance of a model registered as a link target: the id of the content type of its
  class, its primary key, and the key of its \<^verbatim>\<open>site\<close> attribute when its class has one.
\<close>

record obj =
  obj_ct :: int
  obj_pk :: int
  obj_site_id :: "int option"

text \<open>
  The original Url that an override form's \<^verbatim>\<open>url\<close> field resolves to. The forms read
  nothing of it but \<^verbatim>\<open>url.site\<close>.
\<close>

record original =
  orig_pk :: int
  orig_site :: site

text \<open>
  The values the entries of \<^verbatim>\<open>cleaned_data\<close> hold: \<^verbatim>\<open>None\<close>, a \<^verbatim>\<open>str\<close> (every
  \<^verbatim>\<open>CharField\<close> and the \<^verbatim>\<open>ChoiceField\<close>), a \<^verbatim>\<open>Site\<close>, a resolved content object,
  a \<^verbatim>\<open>UrlGrouper\<close> (identity only, so its primary key) and an original \<^verbatim>\<open>Url\<close>.
\<close>

datatype val =
    VNone
  | VStr string
  | VSite site
  | VObj obj
  | VGrouper int
  | VUrl original

datatype exn =
    KeyError string
  | ValueError string
  | TypeError string
  | AttributeError string
  | ObjectDoesNotExist
  | MultipleObjectsReturned
  | ValidationError string string

text \<open>Python's truth value of an object: \<^verbatim>\<open>None\<close> and the empty string are false.\<close>

definition truthy :: "val \<Rightarrow> bool" where
  "truthy v = (case v of VNone \<Rightarrow> False | VStr s \<Rightarrow> s \<noteq> [] | _ \<Rightarrow> True)"

text \<open>\<^verbatim>\<open>d.get(k)\<close>: the entry, or \<^verbatim>\<open>None\<close> when the key is missing.\<close>

definition dict_get :: "(string \<rightharpoonup> val) \<Rightarrow> string \<Rightarrow> val" where
  "dict_get d k = (case d k of None \<Rightarrow> VNone | Some v \<Rightarrow> v)"

text \<open>\<^verbatim>\<open>d[k]\<close>: the entry, or \<^verbatim>\<open>KeyError\<close> when the key is missing.\<close>

definition dict_item :: "(string \<rightharpoonup> val) \<Rightarrow> string \<Rightarrow> exn + val" where
  "dict_item d k = (case d k of None \<Rightarrow> Inl (KeyError k) | Some v \<Rightarrow> Inr v)"

subsection \<open>\<^verbatim>\<open>int(s)\<close> on a string\<close>

text \<open>
  Python's \<^verbatim>\<open>int\<close> of a \<^verbatim>\<open>str\<close>: surrounding whitespace is dropped, a sign may come
  first, then decimal digits, single underscores allowed between two digits. Anything
  else is a \<^verbatim>\<open>ValueError\<close>, here \<open>None\<close>. Strings are byte lists, so only the ASCII
  digits and the ASCII whitespace of Python are covered.
\<close>

definition is_digit :: "char \<Rightarrow> bool" where
  "is_digit c = (48 \<le> (of_char c :: nat) \<and> (of_char c :: nat) \<le> 57)"

definition digit_val :: "char \<Rightarrow> nat" where
  "digit_val c = of_char c - 48"

definition is_space :: "char \<Rightarrow> bool" where
  "is_space c = ((9 \<le> (of_char c :: nat) \<and> (of_char c :: nat) \<le> 13)
     \<or> (28 \<le> (of_char c :: nat) \<and> (of_char c :: nat) \<le> 32))"

definition strip :: "string \<Rightarrow> string" where
  "strip s = rev (dropWhile is_space (rev (dropWhile is_space s)))"

fun digits :: "nat \<Rightarrow> string \<Rightarrow> nat option" where
  "digits acc [] = Some acc"
| "digits acc (c # cs) =
     (if is_digit c then digits (10 * acc + digit_val c) cs
      else if c = CHR ''_'' then
        (case cs of
           [] \<Rightarrow> None
         | d # _ \<Rightarrow> if is_digit d then digits acc cs else None)
      else None)"

definition unsigned :: "string \<Rightarrow> nat option" where
  "unsigned s =
     (case s of
        [] \<Rightarrow> None
      | c # _ \<Rightarrow> if is_digit c then digits 0 s else None)"

definition py_int :: "string \<Rightarrow> int option" where
  "py_int s =
     (case strip s of
        [] \<Rightarrow> None
      | c # cs \<Rightarrow>
          if c = CHR ''-'' then map_option (\<lambda>n. - int n) (unsigned cs)
          else if c = CHR ''+'' then map_option int (unsigned cs)
          else map_option int (unsigned (c # cs)))"

text \<open>
  \<^verbatim>\<open>int(v)\<close> on a value of \<^verbatim>\<open>cleaned_data\<close>, which is also how the ORM turns the
  value of a lookup on an integer column into a number: a string that is no number is a
  \<^verbatim>\<open>ValueError\<close>, a value that is no string a \<^verbatim>\<open>TypeError\<close>.
\<close>

definition int_of :: "val \<Rightarrow> exn + int" where
  "int_of v =
     (case v of
        VStr s \<Rightarrow> (case py_int s of None \<Rightarrow> Inl (ValueError s) | Some i \<Rightarrow> Inr i)
      | _ \<Rightarrow> Inl (TypeError ''int''))"

subsection \<open>Model classes and tables\<close>

text \<open>
  A model class that can be a link target, as \<^verbatim>\<open>UrlForm.clean\<close> sees it:
  \<^verbatim>\<open>model.objects.all()\<close>, the \<^verbatim>\<open>on_site\<close> method of its manager and querysets when
  it has one (\<open>None\<close>: \<^verbatim>\<open>hasattr(model.objects, "on_site")\<close> is false), and whether the
  class has a \<^verbatim>\<open>site\<close> attribute.
\<close>

record model =
  objects :: "obj list"
  on_site :: "(val \<Rightarrow> obj list \<Rightarrow> obj list) option"
  has_site :: bool

text \<open>
  Modelled from the spec: the model classes Url and UrlOverride of \<^verbatim>\<open>models.py\<close>, which
  is not among the sources. The spec gives a Url an internal name, a site, the five basic
  kinds, a generic reference (content type and object id) and a UrlGrouper that may be
  missing; a UrlOverride has the same shape and a reference to its original Url.
  \<open>is_Url\<close> is \<^verbatim>\<open>isinstance(url, Url)\<close>; \<open>attrs\<close> holds the columns a form assigns
  by name (\<^verbatim>\<open>internal_name\<close>, \<^verbatim>\<open>site\<close>, the five basic kinds, an override's \<^verbatim>\<open>url\<close>);
  \<open>content_type\<close> and \<open>object_id\<close> are the two columns behind the generic foreign key
  \<^verbatim>\<open>content_object\<close>; \<open>url_grouper\<close> is \<open>None\<close> while the instance has no
  UrlGrouper.
\<close>

record url =
  is_Url :: bool
  pk :: "int option"
  attrs :: "string \<Rightarrow> val"
  content_type :: "int option"
  object_id :: "int option"
  url_grouper :: "int option"

text \<open>
  The tables the forms touch: the content types (an id maps to its model class, or to
  \<open>None\<close> when \<^verbatim>\<open>model_class()\<close> finds no installed class), the rows of
  \<^verbatim>\<open>Url._base_manager\<close>, the rows of UrlOverride and the primary keys of the UrlGrouper
  rows.
\<close>

record db =
  content_types :: "int \<rightharpoonup> model option"
  urls :: "url list"
  url_overrides :: "url list"
  groupers :: "int list"

section \<open>Forms\<close>

text \<open>
  The state of a bound form while \<^verbatim>\<open>clean()\<close> runs: the names of its fields, the raw
  submission \<^verbatim>\<open>self.data\<close>, \<^verbatim>\<open>self.cleaned_data\<close> and \<^verbatim>\<open>self.errors\<close> as the fields'
  own cleaning left them. A field whose cleaning failed has an entry in \<open>errors\<close> and
  none in \<open>cleaned_data\<close>.
\<close>

record form =
  form_fields :: "string list"
  data :: "string \<rightharpoonup> string"
  cleaned_data :: "string \<rightharpoonup> val"
  errors :: "string \<rightharpoonup> string list"

text \<open>
  \<^verbatim>\<open>BaseForm.add_error(field, error)\<close> for a named field and one message. Django
  refuses a name that is neither a field of the form nor already a key of the errors
  (\<^verbatim>\<open>ValueError: '<Form>' has no field named '<field>'\<close>); otherwise it appends the
  message to the field's error list and deletes the field from \<^verbatim>\<open>cleaned_data\<close>.
\<close>

definition add_error :: "string \<Rightarrow> string \<Rightarrow> 'a form_scheme \<Rightarrow> exn + 'a form_scheme" where
  "add_error field msg f =
     (if errors f field = None \<and> field \<notin> set (form_fields f) then Inl (ValueError field)
      else Inr (f\<lparr>errors := (errors f)(field \<mapsto>
                     (case errors f field of None \<Rightarrow> [] | Some es \<Rightarrow> es) @ [msg]),
                 cleaned_data := (cleaned_data f)(field := None)\<rparr>))"

text \<open>
  The cleaning of a \<^verbatim>\<open>forms.CharField\<close> left at its default \<^verbatim>\<open>required=True\<close>, as
  \<^verbatim>\<open>BaseForm._clean_fields\<close> runs it: the submitted text is stripped; an empty or
  missing value records \<^verbatim>\<open>This field is required.\<close> and leaves no entry in
  \<^verbatim>\<open>cleaned_data\<close>.
\<close>

definition clean_required_CharField :: "string \<Rightarrow> 'a form_scheme \<Rightarrow> 'a form_scheme" where
  "clean_required_CharField name f =
     (let v = strip (case data f name of None \<Rightarrow> [] | Some s \<Rightarrow> s) in
      if v = [] then
        f\<lparr>errors := (errors f)(name \<mapsto>
             (case errors f name of None \<Rightarrow> [] | Some es \<Rightarrow> es) @ [''This field is required.'']),
          cleaned_data := (cleaned_data f)(name := None)\<rparr>
      else f\<lparr>cleaned_data := (cleaned_data f)(name \<mapsto> VStr v)\<rparr>)"

subsection \<open>HtmlLinkForm\<close>

text \<open>The declared fields and \<^verbatim>\<open>Meta.fields\<close> of \<^verbatim>\<open>HtmlLinkForm\<close>.\<close>

definition HtmlLinkForm_fields :: "string list" where
  "HtmlLinkForm_fields =
     [''site'', ''url_grouper'', ''label'', ''template'', ''target'', ''attributes'']"

text \<open>\<^verbatim>\<open>UrlGrouper.objects.get(pk=i)\<close>.\<close>

definition get_grouper :: "db \<Rightarrow> int \<Rightarrow> exn + val" where
  "get_grouper d i = (if i \<in> set (groupers d) then Inr (VGrouper i) else Inl ObjectDoesNotExist)"

text \<open>
  \<^verbatim>\<open>HtmlLinkForm.clean\<close>. \<^verbatim>\<open>data["url_grouper"]\<close> is a plain dict access; the two
  handlers catch \<^verbatim>\<open>ValueError\<close> and \<^verbatim>\<open>ObjectDoesNotExist\<close> only, and both report on the
  field name \<^verbatim>\<open>"url"\<close>.
\<close>

definition HtmlLinkForm_clean :: "db \<Rightarrow> form \<Rightarrow> exn + form" where
  "HtmlLinkForm_clean d f =
     (case dict_item (cleaned_data f) ''url_grouper'' of
        Inl e \<Rightarrow> Inl e
      | Inr v \<Rightarrow>
         (case int_of v of
            Inl (ValueError _) \<Rightarrow> add_error ''url'' ''Invalid value'' f
          | Inl e \<Rightarrow> Inl e
          | Inr url_grouper_id \<Rightarrow>
             (case get_grouper d url_grouper_id of
                Inl ObjectDoesNotExist \<Rightarrow> add_error ''url'' ''Url does not exist'' f
              | Inl e \<Rightarrow> Inl e
              | Inr g \<Rightarrow> Inr (f\<lparr>cleaned_data := (cleaned_data f)(''url_grouper'' \<mapsto> g)\<rparr>))))"

text \<open>
  A submission to \<^verbatim>\<open>HtmlLinkForm\<close> up to the end of \<^verbatim>\<open>clean()\<close>: the cleaning of the
  \<^verbatim>\<open>url_grouper\<close> field, then \<^verbatim>\<open>clean()\<close>. The other fields of the form are neither
  read nor written by \<^verbatim>\<open>clean()\<close>.
\<close>

definition HtmlLinkForm_bound :: "(string \<rightharpoonup> string) \<Rightarrow> form" where
  "HtmlLinkForm_bound raw =
     \<lparr>form_fields = HtmlLinkForm_fields, data = raw, cleaned_data = Map.empty, errors = Map.empty\<rparr>"

definition HtmlLinkForm_submit :: "db \<Rightarrow> (string \<rightharpoonup> string) \<Rightarrow> exn + form" where
  "HtmlLinkForm_submit d raw =
     HtmlLinkForm_clean d (clean_required_CharField ''url_grouper'' (HtmlLinkForm_bound raw))"

subsection \<open>UrlForm: clean\<close>

text \<open>
  Modelled from the spec: the constant \<^verbatim>\<open>BASIC_TYPE_CHOICES\<close> of \<^verbatim>\<open>models.py\<close>, which is
  not among the sources. The spec names the five basic kinds (manual URL, relative path,
  anchor, mailto, phone); the form uses the keys only, which are the names of the fields
  in \<^verbatim>\<open>Meta.fields\<close>.
\<close>

definition BASIC_TYPE_CHOICES :: "(string \<times> string) list" where
  "BASIC_TYPE_CHOICES =
     [(''manual_url'', ''manual URL''), (''relative_path'', ''relative path''),
      (''anchor'', ''anchor''), (''mailto'', ''mailto''), (''phone'', ''phone'')]"

text \<open>\<^verbatim>\<open>dict(BASIC_TYPE_CHOICES).keys()\<close>.\<close>

definition basic_type_names :: "string list" where
  "basic_type_names = map fst BASIC_TYPE_CHOICES"

text \<open>The declared fields and \<^verbatim>\<open>Meta.fields\<close> of \<^verbatim>\<open>UrlForm\<close>.\<close>

definition UrlForm_fields :: "string list" where
  "UrlForm_fields =
     [''internal_name'', ''url_type'', ''site'', ''content_object'', ''manual_url'',
      ''relative_path'', ''anchor'', ''mailto'', ''phone'']"

text \<open>
  \<^verbatim>\<open>url_type in dict(BASIC_TYPE_CHOICES).keys()\<close>, with the key it is: \<open>None\<close> when
  \<^verbatim>\<open>url_type\<close> is no basic kind.
\<close>

definition basic_type_of :: "val \<Rightarrow> string option" where
  "basic_type_of v =
     (case v of
        VStr t \<Rightarrow> if t \<in> set basic_type_names then Some t else None
      | _ \<Rightarrow> None)"

definition is_basic_type :: "val \<Rightarrow> bool" where
  "is_basic_type v = (basic_type_of v \<noteq> None)"

text \<open>
  The loop of \<^verbatim>\<open>clean\<close>: every basic kind other than \<^verbatim>\<open>url_type\<close> gets the empty
  string.
\<close>

definition blank_other_types :: "val \<Rightarrow> (string \<rightharpoonup> val) \<Rightarrow> (string \<rightharpoonup> val)" where
  "blank_other_types url_type d =
     fold (\<lambda>type_name d'. if VStr type_name \<noteq> url_type then d'(type_name \<mapsto> VStr []) else d')
       basic_type_names d"

text \<open>
  \<^verbatim>\<open>ContentType.objects.get_for_id(url_type)\<close>, with what \<^verbatim>\<open>model_class()\<close> returns
  for it. A lookup by \<^verbatim>\<open>None\<close> finds no row.
\<close>

definition get_for_id :: "db \<Rightarrow> val \<Rightarrow> exn + (int \<times> model option)" where
  "get_for_id d v =
     (case v of
        VNone \<Rightarrow> Inl ObjectDoesNotExist
      | _ \<Rightarrow>
        (case int_of v of
           Inl e \<Rightarrow> Inl e
         | Inr i \<Rightarrow>
           (case content_types d i of
              None \<Rightarrow> Inl ObjectDoesNotExist
            | Some mc \<Rightarrow> Inr (i, mc))))"

text \<open>The key a \<^verbatim>\<open>site=site\<close> filter compares with: the Site's, or NULL.\<close>

definition site_ref :: "val \<Rightarrow> int option" where
  "site_ref v = (case v of VSite s \<Rightarrow> Some (site_pk s) | _ \<Rightarrow> None)"

text \<open>
  The queryset of lines 147 to 151: \<^verbatim>\<open>model.objects.all()\<close>, scoped by \<^verbatim>\<open>on_site(site)\<close>
  when the manager has it, else filtered by \<^verbatim>\<open>site=site\<close> when the model has a
  \<^verbatim>\<open>site\<close>, else left as it is.
\<close>

definition content_object_qs :: "model \<Rightarrow> val \<Rightarrow> obj list" where
  "content_object_qs m site =
     (case on_site m of
        Some scope \<Rightarrow> scope site (objects m)
      | None \<Rightarrow>
          if has_site m then filter (\<lambda>ob. obj_site_id ob = site_ref site) (objects m)
          else objects m)"

text \<open>\<^verbatim>\<open>qs.get(pk=v)\<close> on an integer primary key.\<close>

definition qs_get :: "obj list \<Rightarrow> val \<Rightarrow> exn + obj" where
  "qs_get qs v =
     (case int_of v of
        Inl e \<Rightarrow> Inl e
      | Inr i \<Rightarrow>
        (case filter (\<lambda>ob. obj_pk ob = i) qs of
           [] \<Rightarrow> Inl ObjectDoesNotExist
         | [ob] \<Rightarrow> Inr ob
         | _ \<Rightarrow> Inl MultipleObjectsReturned))"

text \<open>The UrlGrouper a \<^verbatim>\<open>url_grouper\<close> entry stands for: its key, or NULL.\<close>

definition grouper_ref :: "val \<Rightarrow> int option" where
  "grouper_ref v = (case v of VGrouper g \<Rightarrow> Some g | _ \<Rightarrow> None)"

text \<open>
  \<^verbatim>\<open>Url._base_manager.filter(content_type=ct, object_id=oid).exclude(url_grouper=g).exists()\<close>.
\<close>

definition url_exists_elsewhere :: "db \<Rightarrow> int \<Rightarrow> int \<Rightarrow> val \<Rightarrow> bool" where
  "url_exists_elsewhere d ct oid g =
     list_ex (\<lambda>r. content_type r = Some ct \<and> object_id r = Some oid
                  \<and> url_grouper r \<noteq> grouper_ref g) (urls d)"

text \<open>
  \<^verbatim>\<open>str(site)\<close> for the entry of the \<^verbatim>\<open>site\<close> field, a \<^verbatim>\<open>ModelChoiceField\<close> over
  Site: a Site prints as its domain, a missing one as \<^verbatim>\<open>None\<close>.
\<close>

definition site_str :: "val \<Rightarrow> string" where
  "site_str v = (case v of VSite s \<Rightarrow> site_domain s | VStr s \<Rightarrow> s | _ \<Rightarrow> ''None'')"

definition does_not_exist_message :: "string \<Rightarrow> val \<Rightarrow> string" where
  "does_not_exist_message raw_url_type site =
     ''Object does not exist in a given content type id: '' @ raw_url_type
       @ '' and site: '' @ site_str site"

text \<open>
  The lookup that opens the \<^verbatim>\<open>try\<close> of \<^verbatim>\<open>clean\<close> (lines 145 to 152): the content
  type of \<^verbatim>\<open>url_type\<close>, its model class, the scoped queryset and the object of key
  \<^verbatim>\<open>content_object\<close> in it. The result is the content type's id and the object.
\<close>

definition lookup_content_object :: "db \<Rightarrow> val \<Rightarrow> val \<Rightarrow> val \<Rightarrow> exn + (int \<times> obj)" where
  "lookup_content_object d url_type content_object site =
     (case get_for_id d url_type of
        Inl e \<Rightarrow> Inl e
      | Inr (ct, mc) \<Rightarrow>
        (case mc of
           None \<Rightarrow> Inl (AttributeError ''objects'')
         | Some m \<Rightarrow>
           (case qs_get (content_object_qs m site) content_object of
              Inl e \<Rightarrow> Inl e
            | Inr ob \<Rightarrow> Inr (ct, ob))))"

text \<open>
  The body of the \<^verbatim>\<open>try\<close> of \<^verbatim>\<open>clean\<close> (lines 145 to 166), on the form as the loop
  left it. The uniqueness check reads \<^verbatim>\<open>data["content_object"]\<close>, which is still the
  submitted key.
\<close>

definition UrlForm_clean_try ::
  "db \<Rightarrow> val \<Rightarrow> val \<Rightarrow> val \<Rightarrow> 'a form_scheme \<Rightarrow> exn + 'a form_scheme" where
  "UrlForm_clean_try d url_type content_object site f =
     (case lookup_content_object d url_type content_object site of
        Inl e \<Rightarrow> Inl e
      | Inr (ct, ob) \<Rightarrow>
        (case (if \<not> truthy (dict_get (cleaned_data f) ''url'') then
                 (case int_of (dict_get (cleaned_data f) ''content_object'') of
                    Inl e \<Rightarrow> Inl e
                  | Inr oid \<Rightarrow>
                      if url_exists_elsewhere d ct oid
                           (dict_get (cleaned_data f) ''url_grouper'')
                      then add_error ''content_object''
                             ''Url with this object already exists'' f
                      else Inr f)
               else Inr f) of
           Inl e \<Rightarrow> Inl e
         | Inr f' \<Rightarrow>
             Inr (f'\<lparr>cleaned_data := (cleaned_data f')(''content_object'' \<mapsto> VObj ob)\<rparr>)))"

text \<open>
  \<^verbatim>\<open>UrlForm.clean\<close>. \<^verbatim>\<open>super().clean()\<close> returns \<^verbatim>\<open>self.cleaned_data\<close> itself, so every
  assignment to \<^verbatim>\<open>data\<close> is one to the form's \<^verbatim>\<open>cleaned_data\<close>. Only
  \<^verbatim>\<open>ObjectDoesNotExist\<close> is caught; its handler reads the raw submission
  \<^verbatim>\<open>self.data["url_type"]\<close>.
\<close>

definition UrlForm_clean :: "db \<Rightarrow> 'a form_scheme \<Rightarrow> exn + 'a form_scheme" where
  "UrlForm_clean d f0 =
     (let url_type = dict_get (cleaned_data f0) ''url_type'';
          content_object = dict_get (cleaned_data f0) ''content_object'';
          f = f0\<lparr>cleaned_data := blank_other_types url_type (cleaned_data f0)\<rparr>
      in case basic_type_of url_type of
           Some t \<Rightarrow>
             if errors f t = None then
               (case dict_item (cleaned_data f) t of
                  Inl e \<Rightarrow> Inl e
                | Inr v \<Rightarrow> if \<not> truthy v then add_error t ''Field is required'' f else Inr f)
             else Inr f
         | None \<Rightarrow>
             if truthy content_object then
               (let site = dict_get (cleaned_data f) ''site'' in
                case UrlForm_clean_try d url_type content_object site f of
                  Inl ObjectDoesNotExist \<Rightarrow>
                    (case data f ''url_type'' of
                       None \<Rightarrow> Inl (KeyError ''url_type'')
                     | Some raw \<Rightarrow>
                         add_error ''content_object'' (does_not_exist_message raw site) f)
                | Inl e \<Rightarrow> Inl e
                | Inr f' \<Rightarrow> Inr f')
             else add_error ''content_object'' ''Field is required'' f)"

subsection \<open>UrlForm: the instance and save\<close>

text \<open>A model form carries the instance it edits.\<close>

record url_form = form +
  form_instance :: url

text \<open>
  Modelled from the spec: the columns of \<^verbatim>\<open>models.py\<close> (not among the sources) that a
  form can assign to the instance: \<^verbatim>\<open>internal_name\<close>, \<^verbatim>\<open>site\<close> and the five basic
  kinds; \<^verbatim>\<open>url_grouper\<close> on a Url and \<^verbatim>\<open>url\<close> on a UrlOverride. \<^verbatim>\<open>url_type\<close> is a
  field of the form only, and \<^verbatim>\<open>content_object\<close> is a generic foreign key, which is no
  column.
\<close>

definition model_columns :: "url \<Rightarrow> string list" where
  "model_columns u =
     (if is_Url u then [''url_grouper''] else [''url''])
       @ [''internal_name'', ''site''] @ basic_type_names"

text \<open>\<^verbatim>\<open>setattr(instance, name, v)\<close> on a column.\<close>

definition setattr :: "string \<Rightarrow> val \<Rightarrow> url \<Rightarrow> url" where
  "setattr name v u =
     (if name = ''url_grouper'' then u\<lparr>url_grouper := grouper_ref v\<rparr>
      else u\<lparr>attrs := (attrs u)(name := v)\<rparr>)"

text \<open>
  \<^verbatim>\<open>construct_instance\<close>, which \<^verbatim>\<open>ModelForm._post_clean\<close> runs after \<^verbatim>\<open>clean()\<close>:
  every column that is a field of the form and has an entry in \<^verbatim>\<open>cleaned_data\<close> is
  assigned that entry. The columns are taken to have no default value, the case in which
  Django would keep the instance's value for a field missing from the submission. The
  validation of the instance that follows can only add errors and is not part of the
  embedding.
\<close>

definition construct_instance :: "url_form \<Rightarrow> url_form" where
  "construct_instance f =
     f\<lparr>form_instance :=
         fold (\<lambda>name u. case cleaned_data f name of None \<Rightarrow> u | Some v \<Rightarrow> setattr name v u)
           (filter (\<lambda>name. name \<in> set (form_fields f)) (model_columns (form_instance f)))
           (form_instance f)\<rparr>"

text \<open>\<^verbatim>\<open>full_clean\<close> from \<^verbatim>\<open>clean()\<close> on: \<^verbatim>\<open>clean()\<close>, then the instance is built.\<close>

definition UrlForm_full_clean :: "db \<Rightarrow> url_form \<Rightarrow> exn + url_form" where
  "UrlForm_full_clean d f =
     (case UrlForm_clean d f of Inl e \<Rightarrow> Inl e | Inr f' \<Rightarrow> Inr (construct_instance f'))"

text \<open>\<^verbatim>\<open>is_valid()\<close>: the form is bound and has no errors.\<close>

definition is_valid :: "'a form_scheme \<Rightarrow> bool" where
  "is_valid f = (dom (errors f) = {})"

text \<open>
  The assignment \<^verbatim>\<open>instance.content_object = v\<close> of a generic foreign key:
  \<^verbatim>\<open>None\<close> clears both columns, a model instance sets them to its content type and key,
  and anything else has no \<^verbatim>\<open>_state\<close> to take a content type from.
\<close>

definition set_content_object :: "val \<Rightarrow> url \<Rightarrow> exn + url" where
  "set_content_object v u =
     (case v of
        VNone \<Rightarrow> Inr (u\<lparr>content_type := None, object_id := None\<rparr>)
      | VObj ob \<Rightarrow> Inr (u\<lparr>content_type := Some (obj_ct ob), object_id := Some (obj_pk ob)\<rparr>)
      | _ \<Rightarrow> Inl (AttributeError ''_state''))"

text \<open>The key the database gives a new row: one above every key of the table.\<close>

definition next_pk :: "int list \<Rightarrow> int" where
  "next_pk ks = fold max ks 0 + 1"

text \<open>\<^verbatim>\<open>UrlGrouper.objects.create()\<close>: a new row, written at once.\<close>

definition create_UrlGrouper :: "db \<Rightarrow> int \<times> db" where
  "create_UrlGrouper d =
     (let g = next_pk (groupers d) in (g, d\<lparr>groupers := groupers d @ [g]\<rparr>))"

text \<open>\<^verbatim>\<open>UrlForm.create_grouper\<close>.\<close>

definition create_grouper :: "db \<Rightarrow> url \<Rightarrow> url \<times> db" where
  "create_grouper d u =
     (if is_Url u \<and> url_grouper u = None then
        (case create_UrlGrouper d of (g, d') \<Rightarrow> (u\<lparr>url_grouper := Some g\<rparr>, d'))
      else (u, d))"

text \<open>
  \<^verbatim>\<open>url.save()\<close>: an instance without a key is inserted under a new key, one with a key
  replaces the row of that key (or is inserted when there is none), in the table of its
  class.
\<close>

definition save_row :: "url \<Rightarrow> url list \<Rightarrow> url \<times> url list" where
  "save_row u rows =
     (case pk u of
        None \<Rightarrow>
          (let u' = u\<lparr>pk := Some (next_pk (List.map_filter pk rows))\<rparr> in (u', rows @ [u']))
      | Some k \<Rightarrow>
          if list_ex (\<lambda>r. pk r = Some k) rows
          then (u, map (\<lambda>r. if pk r = Some k then u else r) rows)
          else (u, rows @ [u]))"

definition url_save :: "db \<Rightarrow> url \<Rightarrow> url \<times> db" where
  "url_save d u =
     (if is_Url u then (case save_row u (urls d) of (u', rows) \<Rightarrow> (u', d\<lparr>urls := rows\<rparr>))
      else (case save_row u (url_overrides d) of (u', rows) \<Rightarrow> (u', d\<lparr>url_overrides := rows\<rparr>)))"

text \<open>
  \<^verbatim>\<open>UrlForm.save(commit=...)\<close>. \<^verbatim>\<open>super().save(commit=False)\<close> raises \<^verbatim>\<open>ValueError\<close>
  when the form has errors and returns \<^verbatim>\<open>self.instance\<close> otherwise, so \<^verbatim>\<open>url\<close> and
  \<^verbatim>\<open>self.instance\<close> are one object. The result is the returned instance and the
  database after the call.
\<close>

definition UrlForm_save :: "bool \<Rightarrow> db \<Rightarrow> url_form \<Rightarrow> exn + (url \<times> db)" where
  "UrlForm_save commit d f =
     (let url_type = dict_get (cleaned_data f) ''url_type'' in
      if \<not> is_valid f then Inl (ValueError ''The Url could not be saved'')
      else
        (case set_content_object
                (if is_basic_type url_type then VNone
                 else dict_get (cleaned_data f) ''content_object'')
                (form_instance f) of
           Inl e \<Rightarrow> Inl e
         | Inr u \<Rightarrow>
             (case create_grouper d u of
                (u', d') \<Rightarrow> if commit then Inr (url_save d' u') else Inr (u', d'))))"

subsection \<open>UrlOverrideForm\<close>

definition UrlOverrideForm_fields :: "string list" where
  "UrlOverrideForm_fields = ''url'' # UrlForm_fields"

text \<open>\<^verbatim>\<open>url.site == site\<close>: two model instances are equal when their keys are.\<close>

definition site_equals :: "site \<Rightarrow> val \<Rightarrow> bool" where
  "site_equals s v = (case v of VSite s' \<Rightarrow> site_pk s = site_pk s' | _ \<Rightarrow> False)"

definition site_message :: string where
  "site_message = ''Overridden site must be different from the original.''"

text \<open>
  \<^verbatim>\<open>UrlOverrideForm.clean\<close>: the base \<^verbatim>\<open>clean\<close>, then the rule on the site.
  \<open>ValidationError field msg\<close> stands for \<^verbatim>\<open>forms.ValidationError({field: msg})\<close>.
\<close>

definition UrlOverrideForm_clean :: "db \<Rightarrow> 'a form_scheme \<Rightarrow> exn + 'a form_scheme" where
  "UrlOverrideForm_clean d f0 =
     (case UrlForm_clean d f0 of
        Inl e \<Rightarrow> Inl e
      | Inr f \<Rightarrow>
          (let url = dict_get (cleaned_data f) ''url'';
               site = dict_get (cleaned_data f) ''site''
           in case url of
                VUrl u \<Rightarrow>
                  if site_equals (orig_site u) site
                  then Inl (ValidationError ''site'' site_message)
                  else Inr f
              | _ \<Rightarrow> if truthy url then Inl (AttributeError ''site'') else Inr f))"

text \<open>
  \<^verbatim>\<open>BaseForm._clean_form\<close> around it: a \<^verbatim>\<open>ValidationError\<close> raised by \<^verbatim>\<open>clean\<close> is
  caught and recorded with \<^verbatim>\<open>add_error\<close>, on the form as the base \<^verbatim>\<open>clean\<close> left
  it; any other exception escapes.
\<close>

definition UrlOverrideForm_clean_form :: "db \<Rightarrow> 'a form_scheme \<Rightarrow> exn + 'a form_scheme" where
  "UrlOverrideForm_clean_form d f0 =
     (case UrlOverrideForm_clean d f0 of
        Inl (ValidationError field msg) \<Rightarrow>
          (case UrlForm_clean d f0 of
             Inl e \<Rightarrow> Inl e
           | Inr f \<Rightarrow> add_error field msg f)
      | r \<Rightarrow> r)"

section \<open>Concrete databases and submissions\<close>

text \<open>A database with two UrlGrouper rows, of primary keys 1 and 2, and nothing else.\<close>

definition two_groupers :: db where
  "two_groupers =
     \<lparr>content_types = Map.empty, urls = [], url_overrides = [], groupers = [1, 2]\<rparr>"

text \<open>
  A site, a page of content type 7 on it, the model class of pages (with a \<^verbatim>\<open>site\<close>
  column and no \<^verbatim>\<open>on_site\<close>), a Url of UrlGrouper 1 that points at the page, and the
  database holding them. \<open>fresh_db\<close> is the same database before any Url was saved.
\<close>

definition example_site :: site where
  "example_site = Site 1 ''example.com''"

definition other_site :: site where
  "other_site = Site 2 ''example.org''"

definition page :: obj where
  "page = \<lparr>obj_ct = 7, obj_pk = 3, obj_site_id = Some 1\<rparr>"

definition page_model :: model where
  "page_model = \<lparr>objects = [page], on_site = None, has_site = True\<rparr>"

text \<open>
  A post of content type 8 on the other site. The manager of posts has an \<^verbatim>\<open>on_site\<close>
  that keeps every post, and posts have a \<^verbatim>\<open>site\<close> column as well.
\<close>

definition post :: obj where
  "post = \<lparr>obj_ct = 8, obj_pk = 5, obj_site_id = Some 2\<rparr>"

definition post_model :: model where
  "post_model = \<lparr>objects = [post], on_site = Some (\<lambda>site qs. qs), has_site = True\<rparr>"

definition new_url :: url where
  "new_url = \<lparr>is_Url = True, pk = None, attrs = (\<lambda>_. VStr []), content_type = None,
     object_id = None, url_grouper = None\<rparr>"

definition page_url :: url where
  "page_url = new_url\<lparr>pk := Some 1, content_type := Some 7, object_id := Some 3,
     url_grouper := Some 1\<rparr>"

definition grouped_url :: url where
  "grouped_url = new_url\<lparr>pk := Some 1, url_grouper := Some 1\<rparr>"

definition new_override :: url where
  "new_override = new_url\<lparr>is_Url := False\<rparr>"

definition example_db :: db where
  "example_db = \<lparr>content_types = [7 \<mapsto> Some page_model, 8 \<mapsto> Some post_model],
     urls = [page_url], url_overrides = [], groupers = [1]\<rparr>"

definition fresh_db :: db where
  "fresh_db = example_db\<lparr>urls := []\<rparr>"

text \<open>
  A submission to \<^verbatim>\<open>UrlForm\<close> on \<open>example_site\<close> after the cleaning of its fields, all
  of which passed: the type, the key of the content object and the anchor are as given,
  the other basic kinds are empty.
\<close>

definition url_submission :: "string \<Rightarrow> string \<Rightarrow> string \<Rightarrow> url \<Rightarrow> url_form" where
  "url_submission url_type content_object anchor inst =
     \<lparr>form_fields = UrlForm_fields,
      data = map_of [(''internal_name'', ''home''), (''url_type'', url_type), (''site'', ''1''),
        (''content_object'', content_object), (''manual_url'', []), (''relative_path'', []),
        (''anchor'', anchor), (''mailto'', []), (''phone'', [])],
      cleaned_data = map_of [(''internal_name'', VStr ''home''), (''url_type'', VStr url_type),
        (''site'', VSite example_site), (''content_object'', VStr content_object),
        (''manual_url'', VStr []), (''relative_path'', VStr []), (''anchor'', VStr anchor),
        (''mailto'', VStr []), (''phone'', VStr [])],
      errors = Map.empty,
      form_instance = inst\<rparr>"

text \<open>The same submission to \<^verbatim>\<open>UrlOverrideForm\<close>, overriding a Url of site \<open>s\<close>.\<close>

definition override_submission :: "site \<Rightarrow> string \<Rightarrow> string \<Rightarrow> string \<Rightarrow> url_form" where
  "override_submission s url_type content_object anchor =
     (url_submission url_type content_object anchor new_override)
       \<lparr>form_fields := UrlOverrideForm_fields,
        cleaned_data :=
          (cleaned_data (url_submission url_type content_object anchor new_override))
            (''url'' \<mapsto> VUrl \<lparr>orig_pk = 1, orig_site = s\<rparr>)\<rparr>"

section \<open>Properties\<close>

lemmas py_int_defs =
  py_int_def strip_def is_space_def unsigned_def is_digit_def digit_val_def int_of_def

lemmas HtmlLinkForm_defs =
  HtmlLinkForm_submit_def HtmlLinkForm_bound_def clean_required_CharField_def Let_def
  HtmlLinkForm_clean_def dict_item_def add_error_def HtmlLinkForm_fields_def get_grouper_def

lemmas example_defs =
  example_site_def other_site_def page_def page_model_def post_def post_model_def
  new_url_def page_url_def example_db_def fresh_db_def url_submission_def

subsection \<open>HtmlLinkForm\<close>

text \<open>
  What \<^verbatim>\<open>HtmlLinkForm.clean\<close> does on a cleaned \<^verbatim>\<open>url_grouper\<close> string, for the form
  as declared (no field and no earlier error named \<^verbatim>\<open>url\<close>): only a primary key that
  exists gives a result; each of the two handlers ends in the \<^verbatim>\<open>ValueError\<close> of
  \<^verbatim>\<open>add_error\<close>.
\<close>

lemma HtmlLinkForm_clean_cases:
  assumes "form_fields f = HtmlLinkForm_fields"
    and "errors f ''url'' = None"
    and "cleaned_data f ''url_grouper'' = Some (VStr s)"
  shows "HtmlLinkForm_clean d f =
    (case py_int s of
       None \<Rightarrow> Inl (ValueError ''url'')
     | Some i \<Rightarrow>
         if i \<in> set (groupers d)
         then Inr (f\<lparr>cleaned_data := (cleaned_data f)(''url_grouper'' \<mapsto> VGrouper i)\<rparr>)
         else Inl (ValueError ''url''))"
  using assms
  by (simp add: HtmlLinkForm_clean_def dict_item_def int_of_def add_error_def
      HtmlLinkForm_fields_def get_grouper_def split: option.splits)

text \<open>
  C2. The claim: no submission to any of the three forms ends in an uncaught exception;
  every failure is a validation error on the form. The code does otherwise: a submission
  to \<^verbatim>\<open>HtmlLinkForm\<close> that leaves \<^verbatim>\<open>url_grouper\<close> empty fails the field's own cleaning,
  so \<^verbatim>\<open>cleaned_data\<close> has no such key, and \<^verbatim>\<open>data["url_grouper"]\<close> in \<^verbatim>\<open>clean\<close>
  raises a \<^verbatim>\<open>KeyError\<close> that neither handler catches.
\<close>

theorem HtmlLinkForm_empty_url_grouper_KeyError:
  "HtmlLinkForm_submit two_groupers [''url_grouper'' \<mapsto> ''''] = Inl (KeyError ''url_grouper'')"
  by (simp add: HtmlLinkForm_defs strip_def)

text \<open>
  C3. The claim: a \<^verbatim>\<open>url_grouper\<close> that is no integer is reported as the validation
  error \<^verbatim>\<open>Invalid value\<close>, an integer with no UrlGrouper row as \<^verbatim>\<open>Url does not exist\<close>,
  and an existing primary key is replaced by the UrlGrouper. The code does the third; in
  the first two cases \<^verbatim>\<open>add_error("url", ...)\<close> names a field the form does not have and
  raises \<^verbatim>\<open>ValueError\<close> instead of recording the message.
\<close>

theorem HtmlLinkForm_url_grouper_outcomes:
  "HtmlLinkForm_submit two_groupers [''url_grouper'' \<mapsto> ''abc''] = Inl (ValueError ''url'')
   \<and> HtmlLinkForm_submit two_groupers [''url_grouper'' \<mapsto> ''41''] = Inl (ValueError ''url'')
   \<and> HtmlLinkForm_submit two_groupers [''url_grouper'' \<mapsto> ''2''] =
       Inr \<lparr>form_fields = HtmlLinkForm_fields, data = [''url_grouper'' \<mapsto> ''2''],
            cleaned_data = [''url_grouper'' \<mapsto> VGrouper 2], errors = Map.empty\<rparr>"
  by (simp add: HtmlLinkForm_defs py_int_defs two_groupers_def)

subsection \<open>UrlForm.clean: the basic kinds\<close>

lemma blank_other_types_apply:
  "blank_other_types ut d k =
     (if k \<in> set basic_type_names \<and> VStr k \<noteq> ut then Some (VStr []) else d k)"
  by (simp add: blank_other_types_def basic_type_names_def BASIC_TYPE_CHOICES_def)

lemma basic_type_of_Some:
  "basic_type_of v = Some t \<longleftrightarrow> v = VStr t \<and> t \<in> set basic_type_names"
  by (auto simp: basic_type_of_def split: val.splits if_splits)

lemma basic_names_subset_fields: "set basic_type_names \<subseteq> set UrlForm_fields"
  by (simp add: basic_type_names_def BASIC_TYPE_CHOICES_def UrlForm_fields_def)

lemma not_basic_names:
  "''url_type'' \<notin> set basic_type_names" "''content_object'' \<notin> set basic_type_names"
  "''site'' \<notin> set basic_type_names" "''url'' \<notin> set basic_type_names"
  "''url_grouper'' \<notin> set basic_type_names" "''7'' \<notin> set basic_type_names"
  by (simp_all add: basic_type_names_def BASIC_TYPE_CHOICES_def)

lemma basic_anchor: "''anchor'' \<in> set basic_type_names"
  by (simp add: basic_type_names_def BASIC_TYPE_CHOICES_def)

lemma dict_get_blank:
  "k \<notin> set basic_type_names \<Longrightarrow> dict_get (blank_other_types ut d) k = dict_get d k"
  by (simp add: dict_get_def blank_other_types_apply)

lemma submission_entries:
  "dict_get (cleaned_data (url_submission ut co a inst)) ''url_type'' = VStr ut"
  "dict_get (cleaned_data (url_submission ut co a inst)) ''content_object'' = VStr co"
  "dict_get (cleaned_data (url_submission ut co a inst)) ''site'' = VSite example_site"
  "dict_get (cleaned_data (url_submission ut co a inst)) ''url'' = VNone"
  "dict_get (cleaned_data (url_submission ut co a inst)) ''url_grouper'' = VNone"
  "cleaned_data (url_submission ut co a inst) ''url_type'' = Some (VStr ut)"
  "data (url_submission ut co a inst) ''url_type'' = Some ut"
  "errors (url_submission ut co a inst) = Map.empty"
  "form_fields (url_submission ut co a inst) = UrlForm_fields"
  "form_instance (url_submission ut co a inst) = inst"
  by (simp_all add: url_submission_def dict_get_def)

lemma override_entries:
  "dict_get (cleaned_data (override_submission s ut co a)) ''url_type'' = VStr ut"
  "dict_get (cleaned_data (override_submission s ut co a)) ''content_object'' = VStr co"
  "dict_get (cleaned_data (override_submission s ut co a)) ''site'' = VSite example_site"
  "dict_get (cleaned_data (override_submission s ut co a)) ''url''
     = VUrl \<lparr>orig_pk = 1, orig_site = s\<rparr>"
  "errors (override_submission s ut co a) = Map.empty"
  "form_fields (override_submission s ut co a) = UrlOverrideForm_fields"
  by (simp_all add: override_submission_def url_submission_def dict_get_def)

text \<open>
  C6. A submission selects a basic \<^verbatim>\<open>url_type\<close> \<open>t\<close>, the field \<open>t\<close> has no error yet
  and its cleaned value is empty: \<^verbatim>\<open>clean\<close> returns, and the errors of the form are the
  earlier ones with \<^verbatim>\<open>Field is required\<close> on \<open>t\<close>. The form is \<^verbatim>\<open>UrlForm\<close> or one
  derived from it, so it has the fields of \<^verbatim>\<open>UrlForm\<close>.
\<close>

theorem UrlForm_clean_basic_required:
  assumes "cleaned_data f ''url_type'' = Some (VStr t)"
    and "t \<in> set basic_type_names"
    and "errors f t = None"
    and "cleaned_data f t = Some v"
    and "\<not> truthy v"
    and "set UrlForm_fields \<subseteq> set (form_fields f)"
  shows "\<exists>f'. UrlForm_clean d f = Inr f'
           \<and> errors f' = (errors f)(t \<mapsto> [''Field is required''])"
proof -
  have t_field: "t \<in> set (form_fields f)"
    using assms(2,6) basic_names_subset_fields by blast
  have bt: "basic_type_of (dict_get (cleaned_data f) ''url_type'') = Some t"
    using assms(1,2) by (simp add: basic_type_of_Some dict_get_def)
  have item: "blank_other_types (VStr t) (cleaned_data f) t = Some v"
    using assms(4) by (simp add: blank_other_types_apply)
  show ?thesis
    using bt item assms(1,3,5) t_field
    by (simp add: UrlForm_clean_def Let_def dict_get_def dict_item_def add_error_def)
qed

theorem UrlForm_clean_basic_required_witness:
  "cleaned_data (url_submission ''anchor'' [] [] new_url) ''url_type'' = Some (VStr ''anchor'')
   \<and> ''anchor'' \<in> set basic_type_names
   \<and> errors (url_submission ''anchor'' [] [] new_url) ''anchor'' = None
   \<and> cleaned_data (url_submission ''anchor'' [] [] new_url) ''anchor'' = Some (VStr [])
   \<and> \<not> truthy (VStr [])
   \<and> set UrlForm_fields \<subseteq> set (form_fields (url_submission ''anchor'' [] [] new_url))
   \<and> (\<exists>f'. UrlForm_clean example_db (url_submission ''anchor'' [] [] new_url) = Inr f'
         \<and> errors f' = [''anchor'' \<mapsto> [''Field is required'']])"
proof -
  let ?f = "url_submission ''anchor'' [] [] new_url"
  have h1: "cleaned_data ?f ''url_type'' = Some (VStr ''anchor'')"
    by (simp add: url_submission_def)
  have h3: "errors ?f ''anchor'' = None" by (simp add: url_submission_def)
  have h4: "cleaned_data ?f ''anchor'' = Some (VStr [])" by (simp add: url_submission_def)
  have h5: "\<not> truthy (VStr [])" by (simp add: truthy_def)
  have h6: "set UrlForm_fields \<subseteq> set (form_fields ?f)" by (simp add: url_submission_def)
  have e: "errors ?f = Map.empty" by (simp add: url_submission_def)
  show ?thesis
    using h1 basic_anchor h3 h4 h5 h6
      UrlForm_clean_basic_required [OF h1 basic_anchor h3 h4 h5 h6, of example_db]
    by (simp add: e)
qed

subsection \<open>UrlForm.clean: the content object\<close>

text \<open>
  \<^verbatim>\<open>clean\<close> on a \<^verbatim>\<open>url_type\<close> that is no basic kind, with a \<^verbatim>\<open>content_object\<close>: the
  \<^verbatim>\<open>try\<close> on the form with the basic kinds blanked, and the handler.
\<close>

lemma UrlForm_clean_nonbasic:
  assumes "basic_type_of (dict_get (cleaned_data f) ''url_type'') = None"
    and "truthy (dict_get (cleaned_data f) ''content_object'')"
  shows "UrlForm_clean d f =
    (case UrlForm_clean_try d (dict_get (cleaned_data f) ''url_type'')
            (dict_get (cleaned_data f) ''content_object'') (dict_get (cleaned_data f) ''site'')
            (f\<lparr>cleaned_data :=
                 blank_other_types (dict_get (cleaned_data f) ''url_type'') (cleaned_data f)\<rparr>) of
       Inl ObjectDoesNotExist \<Rightarrow>
         (case data f ''url_type'' of
            None \<Rightarrow> Inl (KeyError ''url_type'')
          | Some raw \<Rightarrow>
              add_error ''content_object''
                (does_not_exist_message raw (dict_get (cleaned_data f) ''site''))
                (f\<lparr>cleaned_data :=
                     blank_other_types (dict_get (cleaned_data f) ''url_type'') (cleaned_data f)\<rparr>))
     | Inl e \<Rightarrow> Inl e
     | Inr f' \<Rightarrow> Inr f')"
  using assms
  by (simp add: UrlForm_clean_def Let_def dict_get_blank not_basic_names
      cong: sum.case_cong exn.case_cong)

lemma int_of_not_DoesNotExist [simp]: "int_of v \<noteq> Inl ObjectDoesNotExist"
  by (simp add: int_of_def split: val.splits option.splits)


lemma qs_get_Inr:
  assumes "qs_get qs co = Inr ob"
  shows "int_of co = Inr (obj_pk ob)"
proof -
  obtain i where i: "int_of co = Inr i" and f: "filter (\<lambda>x. obj_pk x = i) qs = [ob]"
    using assms by (auto simp: qs_get_def split: sum.splits list.splits)
  from f have "ob \<in> set (filter (\<lambda>x. obj_pk x = i) qs)" by simp
  then have "obj_pk ob = i" by simp
  with i show ?thesis by simp
qed

lemma lookup_Inr:
  "lookup_content_object d ut co site = Inr (ct, ob) \<Longrightarrow> int_of co = Inr (obj_pk ob)"
  by (auto simp: lookup_content_object_def split: sum.splits prod.splits option.splits
      dest: qs_get_Inr)

lemma url_exists_elsewhere_iff:
  "url_exists_elsewhere d ct oid g \<longleftrightarrow>
     (\<exists>r \<in> set (urls d). content_type r = Some ct \<and> object_id r = Some oid
        \<and> url_grouper r \<noteq> grouper_ref g)"
  by (simp add: url_exists_elsewhere_def list_ex_iff)

lemma lookup_page:
  "lookup_content_object example_db (VStr ''7'') (VStr ''3'') (VSite example_site) = Inr (7, page)"
  "lookup_content_object fresh_db (VStr ''7'') (VStr ''3'') (VSite example_site) = Inr (7, page)"
  by (simp_all add: lookup_content_object_def get_for_id_def py_int_defs example_defs
      content_object_qs_def qs_get_def site_ref_def)




text \<open>
  C4. A submission has a \<^verbatim>\<open>url_type\<close> that is no basic kind and a \<^verbatim>\<open>content_object\<close>, and
  the lookup finds the object \<open>ob\<close> of content type \<open>ct\<close>. When the cleaned data has
  no \<^verbatim>\<open>url\<close> and some row of Url points at \<open>(ct, ob)\<close> with a UrlGrouper other than the
  submission's, \<^verbatim>\<open>clean\<close> returns with \<^verbatim>\<open>Url with this object already exists\<close> added to
  the errors of \<^verbatim>\<open>content_object\<close>. When the cleaned data has a \<^verbatim>\<open>url\<close> (an override), the
  result of \<^verbatim>\<open>clean\<close> is the form with the basic kinds blanked and the object resolved,
  whatever the rows of Url are: the check is not made.
\<close>

theorem UrlForm_clean_uniqueness:
  assumes "basic_type_of (dict_get (cleaned_data f) ''url_type'') = None"
    and "truthy (dict_get (cleaned_data f) ''content_object'')"
    and "lookup_content_object d (dict_get (cleaned_data f) ''url_type'')
           (dict_get (cleaned_data f) ''content_object'')
           (dict_get (cleaned_data f) ''site'') = Inr (ct, ob)"
    and "''content_object'' \<in> set (form_fields f)"
  shows "(\<not> truthy (dict_get (cleaned_data f) ''url'')
          \<and> (\<exists>r \<in> set (urls d). content_type r = Some ct \<and> object_id r = Some (obj_pk ob)
                \<and> url_grouper r \<noteq> grouper_ref (dict_get (cleaned_data f) ''url_grouper''))
          \<longrightarrow> (\<exists>f'. UrlForm_clean d f = Inr f'
                \<and> errors f' ''content_object'' =
                    Some ((case errors f ''content_object'' of None \<Rightarrow> [] | Some es \<Rightarrow> es)
                      @ [''Url with this object already exists''])))
       \<and> (truthy (dict_get (cleaned_data f) ''url'')
          \<longrightarrow> UrlForm_clean d f =
                Inr (f\<lparr>cleaned_data :=
                       (blank_other_types (dict_get (cleaned_data f) ''url_type'') (cleaned_data f))
                         (''content_object'' \<mapsto> VObj ob)\<rparr>))"
proof -
  have oid: "int_of (dict_get (cleaned_data f) ''content_object'') = Inr (obj_pk ob)"
    using assms(3) by (rule lookup_Inr)
  show ?thesis
    using assms(3,4) oid
    by (simp add: UrlForm_clean_nonbasic [OF assms(1,2)] UrlForm_clean_try_def
        dict_get_blank not_basic_names url_exists_elsewhere_iff add_error_def)
qed

theorem UrlForm_clean_uniqueness_witness:
  "basic_type_of (dict_get (cleaned_data (url_submission ''7'' ''3'' [] new_url)) ''url_type'') = None
   \<and> truthy (dict_get (cleaned_data (url_submission ''7'' ''3'' [] new_url)) ''content_object'')
   \<and> lookup_content_object example_db
        (dict_get (cleaned_data (url_submission ''7'' ''3'' [] new_url)) ''url_type'')
        (dict_get (cleaned_data (url_submission ''7'' ''3'' [] new_url)) ''content_object'')
        (dict_get (cleaned_data (url_submission ''7'' ''3'' [] new_url)) ''site'') = Inr (7, page)
   \<and> ''content_object'' \<in> set (form_fields (url_submission ''7'' ''3'' [] new_url))
   \<and> \<not> truthy (dict_get (cleaned_data (url_submission ''7'' ''3'' [] new_url)) ''url'')
   \<and> page_url \<in> set (urls example_db)
   \<and> content_type page_url = Some 7 \<and> object_id page_url = Some (obj_pk page)
   \<and> url_grouper page_url
        \<noteq> grouper_ref (dict_get (cleaned_data (url_submission ''7'' ''3'' [] new_url)) ''url_grouper'')
   \<and> (\<exists>f'. UrlForm_clean example_db (url_submission ''7'' ''3'' [] new_url) = Inr f'
         \<and> errors f' ''content_object'' = Some [''Url with this object already exists''])
   \<and> truthy (dict_get (cleaned_data (override_submission other_site ''7'' ''3'' [])) ''url'')
   \<and> (\<exists>f'. UrlForm_clean example_db (override_submission other_site ''7'' ''3'' []) = Inr f'
         \<and> errors f' = Map.empty \<and> cleaned_data f' ''content_object'' = Some (VObj page))"
proof -
  let ?a = "url_submission ''7'' ''3'' [] new_url"
  let ?b = "override_submission other_site ''7'' ''3'' []"
  have a1: "basic_type_of (dict_get (cleaned_data ?a) ''url_type'') = None"
    by (simp add: submission_entries basic_type_of_def not_basic_names)
  have a2: "truthy (dict_get (cleaned_data ?a) ''content_object'')"
    by (simp add: submission_entries truthy_def)
  have a3: "lookup_content_object example_db (dict_get (cleaned_data ?a) ''url_type'')
        (dict_get (cleaned_data ?a) ''content_object'') (dict_get (cleaned_data ?a) ''site'')
      = Inr (7, page)"
    by (simp add: submission_entries lookup_page)
  have a4: "''content_object'' \<in> set (form_fields ?a)"
    by (simp add: submission_entries UrlForm_fields_def)
  have a5: "\<not> truthy (dict_get (cleaned_data ?a) ''url'')"
    by (simp add: submission_entries truthy_def)
  have a6: "content_type page_url = Some 7 \<and> object_id page_url = Some (obj_pk page)
      \<and> url_grouper page_url \<noteq> grouper_ref (dict_get (cleaned_data ?a) ''url_grouper'')"
    by (simp add: submission_entries page_url_def new_url_def page_def grouper_ref_def)
  have a7: "page_url \<in> set (urls example_db)" by (simp add: example_db_def)
  have a8: "errors ?a ''content_object'' = None" by (simp add: submission_entries)
  have b1: "basic_type_of (dict_get (cleaned_data ?b) ''url_type'') = None"
    by (simp add: override_entries basic_type_of_def not_basic_names)
  have b2: "truthy (dict_get (cleaned_data ?b) ''content_object'')"
    by (simp add: override_entries truthy_def)
  have b3: "lookup_content_object example_db (dict_get (cleaned_data ?b) ''url_type'')
        (dict_get (cleaned_data ?b) ''content_object'') (dict_get (cleaned_data ?b) ''site'')
      = Inr (7, page)"
    by (simp add: override_entries lookup_page)
  have b4: "''content_object'' \<in> set (form_fields ?b)"
    by (simp add: override_entries UrlOverrideForm_fields_def UrlForm_fields_def)
  have b5: "truthy (dict_get (cleaned_data ?b) ''url'')"
    by (simp add: override_entries truthy_def)
  from UrlForm_clean_uniqueness [OF a1 a2 a3 a4] a5 a6 a7
  have ra: "\<exists>f'. UrlForm_clean example_db ?a = Inr f'
         \<and> errors f' ''content_object'' = Some [''Url with this object already exists'']"
    by (auto simp: a8)
  from UrlForm_clean_uniqueness [OF b1 b2 b3 b4] b5
  have rb: "\<exists>f'. UrlForm_clean example_db ?b = Inr f'
         \<and> errors f' = Map.empty \<and> cleaned_data f' ''content_object'' = Some (VObj page)"
    by (simp add: override_entries)
  show ?thesis
    using a1 a2 a3 a4 a5 a6 a7 ra b5 rb by simp
qed

text \<open>
  C7. A submission has a \<^verbatim>\<open>url_type\<close> that is no basic kind and resolves to the model
  class \<open>m\<close>, and a \<^verbatim>\<open>content_object\<close>. Then \<^verbatim>\<open>clean\<close> resolves the content object to
  \<open>ob\<close> exactly when \<^verbatim>\<open>get(pk=content_object)\<close> gives \<open>ob\<close> on this queryset:
  \<^verbatim>\<open>on_site(site)\<close> of all objects when the manager has \<^verbatim>\<open>on_site\<close>; else the objects
  whose \<^verbatim>\<open>site\<close> is the selected one when the model has a \<^verbatim>\<open>site\<close>; else all objects.
\<close>

theorem UrlForm_clean_queryset_scope:
  assumes "basic_type_of (dict_get (cleaned_data f) ''url_type'') = None"
    and "truthy (dict_get (cleaned_data f) ''content_object'')"
    and "get_for_id d (dict_get (cleaned_data f) ''url_type'') = Inr (ct, Some m)"
    and "''content_object'' \<in> set (form_fields f)"
  shows "(\<exists>f'. UrlForm_clean d f = Inr f' \<and> cleaned_data f' ''content_object'' = Some (VObj ob))
     \<longleftrightarrow> qs_get
          (case on_site m of
             Some scope \<Rightarrow> scope (dict_get (cleaned_data f) ''site'') (objects m)
           | None \<Rightarrow>
               if has_site m
               then filter (\<lambda>x. obj_site_id x = site_ref (dict_get (cleaned_data f) ''site''))
                      (objects m)
               else objects m)
          (dict_get (cleaned_data f) ''content_object'') = Inr ob"
proof -
  let ?co = "dict_get (cleaned_data f) ''content_object''"
  let ?site = "dict_get (cleaned_data f) ''site''"
  let ?ut = "dict_get (cleaned_data f) ''url_type''"
  have lk: "lookup_content_object d ?ut ?co ?site =
      (case qs_get (content_object_qs m ?site) ?co of Inl e \<Rightarrow> Inl e | Inr x \<Rightarrow> Inr (ct, x))"
    using assms(3) by (simp add: lookup_content_object_def)
  have qs: "content_object_qs m ?site =
      (case on_site m of
         Some scope \<Rightarrow> scope ?site (objects m)
       | None \<Rightarrow>
           if has_site m
           then filter (\<lambda>x. obj_site_id x = site_ref ?site) (objects m)
           else objects m)"
    by (simp add: content_object_qs_def)
  show ?thesis
  proof (cases "qs_get (content_object_qs m ?site) ?co")
    case (Inl e)
    then show ?thesis
      using lk assms(4) unfolding qs [symmetric]
      by (auto simp: UrlForm_clean_nonbasic [OF assms(1,2)] UrlForm_clean_try_def
          add_error_def split: exn.splits option.splits)
  next
    case (Inr x)
    then have "int_of ?co = Inr (obj_pk x)" by (rule qs_get_Inr)
    then show ?thesis
      using Inr lk assms(4) unfolding qs [symmetric]
      by (auto simp: UrlForm_clean_nonbasic [OF assms(1,2)] UrlForm_clean_try_def
          dict_get_blank not_basic_names add_error_def)
  qed
qed

theorem UrlForm_clean_queryset_scope_witness:
  "basic_type_of (dict_get (cleaned_data (url_submission ''7'' ''3'' [] new_url)) ''url_type'') = None
   \<and> truthy (dict_get (cleaned_data (url_submission ''7'' ''3'' [] new_url)) ''content_object'')
   \<and> get_for_id example_db (dict_get (cleaned_data (url_submission ''7'' ''3'' [] new_url)) ''url_type'')
       = Inr (7, Some page_model)
   \<and> ''content_object'' \<in> set (form_fields (url_submission ''7'' ''3'' [] new_url))
   \<and> on_site page_model = None \<and> has_site page_model
   \<and> qs_get (filter (\<lambda>x. obj_site_id x = site_ref (VSite example_site)) (objects page_model))
        (VStr ''3'') = Inr page
   \<and> (\<exists>f'. UrlForm_clean example_db (url_submission ''7'' ''3'' [] new_url) = Inr f'
         \<and> cleaned_data f' ''content_object'' = Some (VObj page))
   \<and> basic_type_of (dict_get (cleaned_data (url_submission ''8'' ''5'' [] new_url)) ''url_type'') = None
   \<and> truthy (dict_get (cleaned_data (url_submission ''8'' ''5'' [] new_url)) ''content_object'')
   \<and> get_for_id example_db (dict_get (cleaned_data (url_submission ''8'' ''5'' [] new_url)) ''url_type'')
       = Inr (8, Some post_model)
   \<and> ''content_object'' \<in> set (form_fields (url_submission ''8'' ''5'' [] new_url))
   \<and> on_site post_model = Some (\<lambda>site qs. qs) \<and> has_site post_model
   \<and> filter (\<lambda>x. obj_site_id x = site_ref (VSite example_site)) (objects post_model) = []
   \<and> qs_get (objects post_model) (VStr ''5'') = Inr post
   \<and> (\<exists>f'. UrlForm_clean example_db (url_submission ''8'' ''5'' [] new_url) = Inr f'
         \<and> cleaned_data f' ''content_object'' = Some (VObj post))"
proof -
  let ?a = "url_submission ''7'' ''3'' [] new_url"
  let ?b = "url_submission ''8'' ''5'' [] new_url"
  have a1: "basic_type_of (dict_get (cleaned_data ?a) ''url_type'') = None"
    by (simp add: submission_entries basic_type_of_def not_basic_names)
  have a2: "truthy (dict_get (cleaned_data ?a) ''content_object'')"
    by (simp add: submission_entries truthy_def)
  have a3: "get_for_id example_db (dict_get (cleaned_data ?a) ''url_type'')
      = Inr (7, Some page_model)"
    by (simp add: submission_entries get_for_id_def py_int_defs example_db_def)
  have a4: "''content_object'' \<in> set (form_fields ?a)"
    by (simp add: submission_entries UrlForm_fields_def)
  have a5: "on_site page_model = None \<and> has_site page_model" by (simp add: page_model_def)
  have a6: "qs_get (filter (\<lambda>x. obj_site_id x = site_ref (VSite example_site)) (objects page_model))
        (VStr ''3'') = Inr page"
    by (simp add: qs_get_def py_int_defs page_model_def page_def site_ref_def example_site_def)
  have b1: "basic_type_of (dict_get (cleaned_data ?b) ''url_type'') = None"
    by (simp add: submission_entries basic_type_of_def basic_type_names_def BASIC_TYPE_CHOICES_def)
  have b2: "truthy (dict_get (cleaned_data ?b) ''content_object'')"
    by (simp add: submission_entries truthy_def)
  have b3: "get_for_id example_db (dict_get (cleaned_data ?b) ''url_type'')
      = Inr (8, Some post_model)"
    by (simp add: submission_entries get_for_id_def py_int_defs example_db_def)
  have b4: "''content_object'' \<in> set (form_fields ?b)"
    by (simp add: submission_entries UrlForm_fields_def)
  have b5: "on_site post_model = Some (\<lambda>site qs. qs) \<and> has_site post_model"
    by (simp add: post_model_def)
  have b6: "filter (\<lambda>x. obj_site_id x = site_ref (VSite example_site)) (objects post_model) = []"
    by (simp add: post_model_def post_def site_ref_def example_site_def)
  have b7: "qs_get (objects post_model) (VStr ''5'') = Inr post"
    by (simp add: qs_get_def py_int_defs post_model_def post_def)
  have ra: "\<exists>f'. UrlForm_clean example_db ?a = Inr f'
         \<and> cleaned_data f' ''content_object'' = Some (VObj page)"
    using a5 a6 UrlForm_clean_queryset_scope [OF a1 a2 a3 a4, of page]
    by (simp add: submission_entries)
  have rb: "\<exists>f'. UrlForm_clean example_db ?b = Inr f'
         \<and> cleaned_data f' ''content_object'' = Some (VObj post)"
    using b5 b7 UrlForm_clean_queryset_scope [OF b1 b2 b3 b4, of post]
    by (simp add: submission_entries)
  show ?thesis
    using a1 a2 a3 a4 a5 a6 ra b1 b2 b3 b4 b5 b6 b7 rb by simp
qed

subsection \<open>What clean leaves alone\<close>

lemma try_cleaned:
  "UrlForm_clean_try d ut co site f = Inr f' \<Longrightarrow> k \<noteq> ''content_object''
   \<Longrightarrow> cleaned_data f' k = cleaned_data f k"
  by (auto simp: UrlForm_clean_try_def add_error_def split: sum.splits prod.splits if_splits)

lemma try_fields:
  "UrlForm_clean_try d ut co site f = Inr f' \<Longrightarrow> form_fields f' = form_fields f"
  by (auto simp: UrlForm_clean_try_def add_error_def split: sum.splits prod.splits if_splits)

text \<open>
  \<^verbatim>\<open>clean\<close> writes the basic kinds and \<^verbatim>\<open>content_object\<close> and no other entry of
  \<^verbatim>\<open>cleaned_data\<close>.
\<close>

lemma UrlForm_clean_keeps:
  assumes "UrlForm_clean d f = Inr f'"
    and "k \<notin> set basic_type_names" and "k \<noteq> ''content_object''"
  shows "cleaned_data f' k = cleaned_data f k"
proof (cases "basic_type_of (dict_get (cleaned_data f) ''url_type'')")
  case (Some t)
  then have "t \<in> set basic_type_names" by (simp add: basic_type_of_Some)
  with assms(2) have "k \<noteq> t" by blast
  then show ?thesis
    using assms Some
    by (auto simp: UrlForm_clean_def Let_def blank_other_types_apply add_error_def
        split: if_splits sum.splits)
next
  case None
  show ?thesis
  proof (cases "truthy (dict_get (cleaned_data f) ''content_object'')")
    case True
    show ?thesis
      using assms
      by (auto simp: UrlForm_clean_nonbasic [OF None True] blank_other_types_apply add_error_def
          split: sum.splits exn.splits option.splits if_splits dest!: try_cleaned [where k = k])
  next
    case False
    then show ?thesis
      using assms None
      by (auto simp: UrlForm_clean_def Let_def blank_other_types_apply add_error_def
          split: if_splits)
  qed
qed

lemma UrlForm_clean_fields:
  assumes "UrlForm_clean d f = Inr f'"
  shows "form_fields f' = form_fields f"
  using assms
  by (auto simp: UrlForm_clean_def Let_def add_error_def
      split: option.splits if_splits sum.splits exn.splits dest!: try_fields)

lemma UrlForm_clean_anchor_submission:
  "UrlForm_clean d (url_submission ''anchor'' [] ''top'' inst) =
     Inr ((url_submission ''anchor'' [] ''top'' inst)
            \<lparr>cleaned_data := blank_other_types (VStr ''anchor'')
                 (cleaned_data (url_submission ''anchor'' [] ''top'' inst))\<rparr>)"
  by (simp add: UrlForm_clean_def Let_def dict_get_def dict_item_def basic_type_of_def
      basic_anchor blank_other_types_apply truthy_def url_submission_def)

lemma UrlForm_clean_override_submission:
  "UrlForm_clean d (override_submission s ''anchor'' [] ''top'') =
     Inr ((override_submission s ''anchor'' [] ''top'')
            \<lparr>cleaned_data := blank_other_types (VStr ''anchor'')
                 (cleaned_data (override_submission s ''anchor'' [] ''top''))\<rparr>)"
  by (simp add: UrlForm_clean_def Let_def dict_get_def dict_item_def basic_type_of_def
      basic_anchor blank_other_types_apply truthy_def url_submission_def override_submission_def)

subsection \<open>UrlOverrideForm\<close>

text \<open>
  C5. A submission to \<^verbatim>\<open>UrlOverrideForm\<close> has the original Url \<open>u\<close> and the site \<open>s\<close>
  in its cleaned data, and the base \<^verbatim>\<open>clean\<close> returns the form \<open>f1\<close>. When \<open>s\<close> is
  the site of \<open>u\<close>, \<^verbatim>\<open>clean\<close> raises the \<^verbatim>\<open>ValidationError\<close> on \<^verbatim>\<open>site\<close> with the message
  that the overridden site must differ, and \<^verbatim>\<open>_clean_form\<close> records it among the errors
  of \<^verbatim>\<open>site\<close>. When the sites differ, \<^verbatim>\<open>clean\<close> returns \<open>f1\<close> with no error added.
\<close>

theorem UrlOverrideForm_clean_site:
  assumes "UrlForm_clean d f = Inr f1"
    and "cleaned_data f ''url'' = Some (VUrl u)"
    and "cleaned_data f ''site'' = Some (VSite s)"
    and "''site'' \<in> set (form_fields f)"
  shows "(site_pk (orig_site u) = site_pk s \<longrightarrow>
            UrlOverrideForm_clean d f =
              Inl (ValidationError ''site'' ''Overridden site must be different from the original.'')
            \<and> (\<exists>f'. UrlOverrideForm_clean_form d f = Inr f'
                 \<and> errors f' ''site'' =
                     Some ((case errors f1 ''site'' of None \<Rightarrow> [] | Some es \<Rightarrow> es)
                       @ [''Overridden site must be different from the original.''])))
       \<and> (site_pk (orig_site u) \<noteq> site_pk s \<longrightarrow>
            UrlOverrideForm_clean d f = Inr f1 \<and> UrlOverrideForm_clean_form d f = Inr f1)"
proof -
  have "cleaned_data f1 ''url'' = Some (VUrl u)" "cleaned_data f1 ''site'' = Some (VSite s)"
    using UrlForm_clean_keeps [OF assms(1)] assms(2,3) by (simp_all add: not_basic_names)
  then have cl: "UrlOverrideForm_clean d f =
      (if site_pk (orig_site u) = site_pk s
       then Inl (ValidationError ''site'' ''Overridden site must be different from the original.'')
       else Inr f1)"
    using assms(1)
    by (simp add: UrlOverrideForm_clean_def dict_get_def site_equals_def site_message_def)
  have "''site'' \<in> set (form_fields f1)"
    using UrlForm_clean_fields [OF assms(1)] assms(4) by simp
  then show ?thesis
    using assms(1) by (simp add: cl UrlOverrideForm_clean_form_def add_error_def)
qed

theorem UrlOverrideForm_clean_site_witness:
  "(\<exists>f1. UrlForm_clean example_db (override_submission example_site ''anchor'' [] ''top'') = Inr f1)
   \<and> cleaned_data (override_submission example_site ''anchor'' [] ''top'') ''url''
       = Some (VUrl \<lparr>orig_pk = 1, orig_site = example_site\<rparr>)
   \<and> cleaned_data (override_submission example_site ''anchor'' [] ''top'') ''site''
       = Some (VSite example_site)
   \<and> ''site'' \<in> set (form_fields (override_submission example_site ''anchor'' [] ''top''))
   \<and> UrlOverrideForm_clean example_db (override_submission example_site ''anchor'' [] ''top'')
       = Inl (ValidationError ''site'' ''Overridden site must be different from the original.'')
   \<and> (\<exists>f'. UrlOverrideForm_clean_form example_db
               (override_submission example_site ''anchor'' [] ''top'') = Inr f'
         \<and> errors f' ''site'' = Some [''Overridden site must be different from the original.''])
   \<and> cleaned_data (override_submission other_site ''anchor'' [] ''top'') ''url''
       = Some (VUrl \<lparr>orig_pk = 1, orig_site = other_site\<rparr>)
   \<and> cleaned_data (override_submission other_site ''anchor'' [] ''top'') ''site''
       = Some (VSite example_site)
   \<and> site_pk other_site \<noteq> site_pk example_site
   \<and> UrlOverrideForm_clean example_db (override_submission other_site ''anchor'' [] ''top'')
       = UrlForm_clean example_db (override_submission other_site ''anchor'' [] ''top'')"
proof -
  let ?a = "override_submission example_site ''anchor'' [] ''top''"
  let ?b = "override_submission other_site ''anchor'' [] ''top''"
  let ?a1 = "?a\<lparr>cleaned_data := blank_other_types (VStr ''anchor'') (cleaned_data ?a)\<rparr>"
  let ?b1 = "?b\<lparr>cleaned_data := blank_other_types (VStr ''anchor'') (cleaned_data ?b)\<rparr>"
  have a1: "UrlForm_clean example_db ?a = Inr ?a1" by (rule UrlForm_clean_override_submission)
  have a2: "cleaned_data ?a ''url'' = Some (VUrl \<lparr>orig_pk = 1, orig_site = example_site\<rparr>)"
    by (simp add: override_submission_def)
  have a3: "cleaned_data ?a ''site'' = Some (VSite example_site)"
    by (simp add: override_submission_def url_submission_def)
  have a4: "''site'' \<in> set (form_fields ?a)"
    by (simp add: override_submission_def UrlOverrideForm_fields_def UrlForm_fields_def)
  have a5: "errors ?a1 ''site'' = None"
    by (simp add: override_submission_def url_submission_def)
  have b1: "UrlForm_clean example_db ?b = Inr ?b1" by (rule UrlForm_clean_override_submission)
  have b2: "cleaned_data ?b ''url'' = Some (VUrl \<lparr>orig_pk = 1, orig_site = other_site\<rparr>)"
    by (simp add: override_submission_def)
  have b3: "cleaned_data ?b ''site'' = Some (VSite example_site)"
    by (simp add: override_submission_def url_submission_def)
  have b4: "''site'' \<in> set (form_fields ?b)"
    by (simp add: override_submission_def UrlOverrideForm_fields_def UrlForm_fields_def)
  have ne: "site_pk other_site \<noteq> site_pk example_site"
    by (simp add: other_site_def example_site_def)
  show ?thesis
    using a1 a2 a3 a4 a5 b1 b2 b3 ne
      UrlOverrideForm_clean_site [OF a1 a2 a3 a4] UrlOverrideForm_clean_site [OF b1 b2 b3 b4]
    by simp
qed

subsection \<open>A valid form\<close>

lemma add_error_not_valid: "add_error field msg f = Inr f' \<Longrightarrow> \<not> is_valid f'"
  by (auto simp: add_error_def is_valid_def split: if_splits)

text \<open>
  A form that is valid after \<^verbatim>\<open>clean\<close> with a basic \<^verbatim>\<open>url_type\<close> \<open>t\<close> has a non-empty
  entry \<open>t\<close> and every other basic kind blank.
\<close>

lemma valid_clean_basic:
  assumes "UrlForm_clean d f = Inr f1" and "is_valid f1"
    and "basic_type_of (dict_get (cleaned_data f) ''url_type'') = Some t"
  shows "(\<exists>v. cleaned_data f1 t = Some v \<and> truthy v)
       \<and> (\<forall>n \<in> set basic_type_names. n \<noteq> t \<longrightarrow> cleaned_data f1 n = Some (VStr []))"
proof -
  let ?fb = "f\<lparr>cleaned_data := blank_other_types (VStr t) (cleaned_data f)\<rparr>"
  have ut: "dict_get (cleaned_data f) ''url_type'' = VStr t"
    using assms(3) by (simp add: basic_type_of_Some)
  have f1: "f1 = ?fb \<and> (\<exists>v. cleaned_data f t = Some v \<and> truthy v)"
    using assms(1,2) assms(3) add_error_not_valid [of t "''Field is required''" ?fb f1]
    by (auto simp: UrlForm_clean_def Let_def ut dict_item_def blank_other_types_apply is_valid_def
        split: if_splits option.splits)
  then show ?thesis
    by (auto simp: blank_other_types_apply)
qed

text \<open>
  A form that is valid after \<^verbatim>\<open>clean\<close> with a \<^verbatim>\<open>url_type\<close> that is no basic kind has
  the object the lookup found as its \<^verbatim>\<open>content_object\<close> and every basic kind blank.
\<close>

lemma valid_clean_nonbasic:
  assumes "UrlForm_clean d f = Inr f1" and "is_valid f1"
    and "basic_type_of (dict_get (cleaned_data f) ''url_type'') = None"
  shows "\<exists>ct ob. lookup_content_object d (dict_get (cleaned_data f) ''url_type'')
                   (dict_get (cleaned_data f) ''content_object'')
                   (dict_get (cleaned_data f) ''site'') = Inr (ct, ob)
        \<and> cleaned_data f1 ''content_object'' = Some (VObj ob)
        \<and> (\<forall>n \<in> set basic_type_names. cleaned_data f1 n = Some (VStr []))"
proof -
  let ?ut = "dict_get (cleaned_data f) ''url_type''"
  let ?fb = "f\<lparr>cleaned_data := blank_other_types ?ut (cleaned_data f)\<rparr>"
  have nb: "\<And>n. n \<in> set basic_type_names \<Longrightarrow> VStr n \<noteq> ?ut"
    using assms(3) by (auto simp: basic_type_of_def split: val.splits if_splits)
  have co: "truthy (dict_get (cleaned_data f) ''content_object'')"
  proof (rule ccontr)
    assume "\<not> truthy (dict_get (cleaned_data f) ''content_object'')"
    then have "add_error ''content_object'' ''Field is required'' ?fb = Inr f1"
      using assms(1,3) by (simp add: UrlForm_clean_def Let_def)
    then show False using assms(2) add_error_not_valid by blast
  qed
  obtain ct ob where lk: "lookup_content_object d ?ut (dict_get (cleaned_data f) ''content_object'')
                   (dict_get (cleaned_data f) ''site'') = Inr (ct, ob)"
    and f1: "UrlForm_clean_try d ?ut (dict_get (cleaned_data f) ''content_object'')
                   (dict_get (cleaned_data f) ''site'') ?fb = Inr f1"
    using assms(1,2)
    by (auto simp: UrlForm_clean_nonbasic [OF assms(3) co] UrlForm_clean_try_def
        split: sum.splits exn.splits option.splits prod.splits dest: add_error_not_valid)
  have "cleaned_data f1 ''content_object'' = Some (VObj ob)"
    using f1 lk
    by (auto simp: UrlForm_clean_try_def split: sum.splits if_splits)
  moreover have "\<forall>n \<in> set basic_type_names. cleaned_data f1 n = Some (VStr [])"
  proof
    fix n assume n: "n \<in> set basic_type_names"
    then have "n \<noteq> ''content_object''" using not_basic_names by auto
    then have "cleaned_data f1 n = cleaned_data ?fb n" using f1 by (rule try_cleaned [rotated])
    then show "cleaned_data f1 n = Some (VStr [])"
      using n nb by (simp add: blank_other_types_apply)
  qed
  ultimately show ?thesis using lk by blast
qed

subsection \<open>The instance and save\<close>

lemma fold_setattr_attrs:
  "name \<noteq> ''url_grouper'' \<Longrightarrow>
   attrs (fold (\<lambda>n u. case cd n of None \<Rightarrow> u | Some v \<Rightarrow> setattr n v u) ns u0) name =
     (if name \<in> set ns then (case cd name of None \<Rightarrow> attrs u0 name | Some v \<Rightarrow> v)
      else attrs u0 name)"
proof (induction ns arbitrary: u0)
  case Nil
  then show ?case by simp
next
  case (Cons a ns)
  then show ?case
    by (auto simp: setattr_def split: option.splits)
qed

lemma fold_setattr_frame:
  "is_Url (fold (\<lambda>n u. case cd n of None \<Rightarrow> u | Some v \<Rightarrow> setattr n v u) ns u0) = is_Url u0
   \<and> pk (fold (\<lambda>n u. case cd n of None \<Rightarrow> u | Some v \<Rightarrow> setattr n v u) ns u0) = pk u0
   \<and> content_type (fold (\<lambda>n u. case cd n of None \<Rightarrow> u | Some v \<Rightarrow> setattr n v u) ns u0)
       = content_type u0
   \<and> object_id (fold (\<lambda>n u. case cd n of None \<Rightarrow> u | Some v \<Rightarrow> setattr n v u) ns u0)
       = object_id u0"
  by (induction ns arbitrary: u0) (auto simp: setattr_def split: option.splits)

lemma fold_setattr_grouper:
  "''url_grouper'' \<notin> set ns \<Longrightarrow>
   url_grouper (fold (\<lambda>n u. case cd n of None \<Rightarrow> u | Some v \<Rightarrow> setattr n v u) ns u0)
     = url_grouper u0"
  by (induction ns arbitrary: u0) (auto simp: setattr_def split: option.splits)

text \<open>On \<^verbatim>\<open>UrlForm\<close>, the instance gets every basic kind that has an entry.\<close>

lemma construct_instance_attrs:
  assumes "form_fields f = UrlForm_fields" and "n \<in> set basic_type_names"
  shows "attrs (form_instance (construct_instance f)) n =
     (case cleaned_data f n of None \<Rightarrow> attrs (form_instance f) n | Some v \<Rightarrow> v)"
proof -
  have "n \<noteq> ''url_grouper''" using assms(2) not_basic_names by auto
  moreover have "n \<in> set (filter (\<lambda>name. name \<in> set (form_fields f))
      (model_columns (form_instance f)))"
    using assms basic_names_subset_fields by (auto simp: model_columns_def)
  ultimately show ?thesis
    by (simp add: construct_instance_def fold_setattr_attrs)
qed

lemma construct_instance_frame:
  "errors (construct_instance f) = errors f"
  "cleaned_data (construct_instance f) = cleaned_data f"
  "form_fields (construct_instance f) = form_fields f"
  "is_Url (form_instance (construct_instance f)) = is_Url (form_instance f)"
  "pk (form_instance (construct_instance f)) = pk (form_instance f)"
  by (simp_all add: construct_instance_def fold_setattr_frame)

lemma construct_instance_grouper:
  "''url_grouper'' \<notin> set (form_fields f) \<Longrightarrow>
   url_grouper (form_instance (construct_instance f)) = url_grouper (form_instance f)"
  by (simp add: construct_instance_def fold_setattr_grouper)

lemma is_valid_construct: "is_valid (construct_instance f) = is_valid f"
  by (simp add: is_valid_def construct_instance_frame)

lemma full_clean_Inr:
  assumes "UrlForm_full_clean d f = Inr f1"
  obtains f0 where "UrlForm_clean d f = Inr f0" and "f1 = construct_instance f0"
  using assms by (auto simp: UrlForm_full_clean_def split: sum.splits)

text \<open>The key of a new row is the key of no row of the table.\<close>

lemma next_pk_fresh: "next_pk ks \<notin> set ks"
proof
  assume "next_pk ks \<in> set ks"
  then have "next_pk ks \<le> Max (set (0 # ks))" by (intro Max_ge) auto
  also have "\<dots> = fold max ks 0" by (rule Max.set_eq_fold)
  finally show False by (simp add: next_pk_def)
qed

lemma save_row_frame:
  assumes "save_row u rows = (u', rows')"
  shows "attrs u' = attrs u \<and> content_type u' = content_type u \<and> object_id u' = object_id u
       \<and> url_grouper u' = url_grouper u \<and> is_Url u' = is_Url u"
  using assms by (auto simp: save_row_def Let_def split: option.splits if_splits)

text \<open>\<^verbatim>\<open>url.save()\<close> writes the key of the instance and its table, nothing else.\<close>

lemma url_save_frame:
  assumes "url_save d u = (u', d')"
  shows "attrs u' = attrs u \<and> content_type u' = content_type u \<and> object_id u' = object_id u
       \<and> url_grouper u' = url_grouper u \<and> is_Url u' = is_Url u
       \<and> groupers d' = groupers d \<and> content_types d' = content_types d"
proof (cases "is_Url u")
  case True
  obtain v rows where sr: "save_row u (urls d) = (v, rows)" by (cases "save_row u (urls d)")
  with True assms have "u' = v" "d' = d\<lparr>urls := rows\<rparr>" by (simp_all add: url_save_def)
  with save_row_frame [OF sr] show ?thesis by simp
next
  case False
  obtain v rows where sr: "save_row u (url_overrides d) = (v, rows)"
    by (cases "save_row u (url_overrides d)")
  with False assms have "u' = v" "d' = d\<lparr>url_overrides := rows\<rparr>"
    by (simp_all add: url_save_def)
  with save_row_frame [OF sr] show ?thesis by simp
qed

lemma create_grouper_frame:
  assumes "create_grouper d u = (u', d')"
  shows "attrs u' = attrs u \<and> content_type u' = content_type u \<and> object_id u' = object_id u
       \<and> is_Url u' = is_Url u \<and> pk u' = pk u
       \<and> urls d' = urls d \<and> url_overrides d' = url_overrides d
       \<and> content_types d' = content_types d"
  using assms by (auto simp: create_grouper_def create_UrlGrouper_def Let_def split: if_splits)

lemma create_grouper_cases:
  assumes "create_grouper d u = (u', d')"
  shows "(is_Url u \<and> url_grouper u = None \<longrightarrow>
            d' = d\<lparr>groupers := groupers d @ [next_pk (groupers d)]\<rparr>
            \<and> u' = u\<lparr>url_grouper := Some (next_pk (groupers d))\<rparr>)
       \<and> (\<not> (is_Url u \<and> url_grouper u = None) \<longrightarrow> d' = d \<and> u' = u)"
  using assms by (auto simp: create_grouper_def create_UrlGrouper_def Let_def split: if_splits)

text \<open>\<^verbatim>\<open>save\<close> on a valid form whose content object can be assigned.\<close>

lemma UrlForm_save_valid:
  assumes "is_valid f"
    and "set_content_object
           (if is_basic_type (dict_get (cleaned_data f) ''url_type'') then VNone
            else dict_get (cleaned_data f) ''content_object'') (form_instance f) = Inr u0"
  shows "UrlForm_save commit d f =
     Inr (if commit then url_save (snd (create_grouper d u0)) (fst (create_grouper d u0))
          else create_grouper d u0)"
  using assms by (simp add: UrlForm_save_def Let_def split: prod.splits)

lemma UrlForm_save_frame:
  assumes "is_valid f"
    and "set_content_object
           (if is_basic_type (dict_get (cleaned_data f) ''url_type'') then VNone
            else dict_get (cleaned_data f) ''content_object'') (form_instance f) = Inr u0"
  shows "\<exists>u d'. UrlForm_save commit d f = Inr (u, d')
      \<and> attrs u = attrs u0 \<and> content_type u = content_type u0 \<and> object_id u = object_id u0"
proof -
  obtain u1 d1 where cg: "create_grouper d u0 = (u1, d1)" by (cases "create_grouper d u0")
  obtain u2 d2 where us: "url_save d1 u1 = (u2, d2)" by (cases "url_save d1 u1")
  show ?thesis
    using UrlForm_save_valid [OF assms, of commit d] cg us
      create_grouper_frame [OF cg] url_save_frame [OF us]
    by (cases commit) simp_all
qed

text \<open>
  After a valid \<^verbatim>\<open>full_clean\<close> the assignment of the content object in \<^verbatim>\<open>save\<close> does
  not fail, and it leaves the UrlGrouper, the class and the key of the instance alone.
\<close>

lemma valid_set_content_object:
  assumes "UrlForm_full_clean d f = Inr f1" and "is_valid f1"
  shows "\<exists>u0. set_content_object
           (if is_basic_type (dict_get (cleaned_data f1) ''url_type'') then VNone
            else dict_get (cleaned_data f1) ''content_object'') (form_instance f1) = Inr u0
       \<and> url_grouper u0 = url_grouper (form_instance f1)
       \<and> is_Url u0 = is_Url (form_instance f1) \<and> pk u0 = pk (form_instance f1)"
proof -
  let ?ut = "dict_get (cleaned_data f) ''url_type''"
  obtain f0 where cl: "UrlForm_clean d f = Inr f0" and f1: "f1 = construct_instance f0"
    using assms(1) by (rule full_clean_Inr)
  have v0: "is_valid f0" using assms(2) by (simp add: f1 is_valid_construct)
  have cd: "cleaned_data f1 = cleaned_data f0" by (simp add: f1 construct_instance_frame)
  have ut: "dict_get (cleaned_data f1) ''url_type'' = ?ut"
    using UrlForm_clean_keeps [OF cl, of "''url_type''"]
    by (simp add: cd dict_get_def not_basic_names)
  show ?thesis
  proof (cases "basic_type_of ?ut")
    case (Some t)
    then show ?thesis by (simp add: ut is_basic_type_def set_content_object_def)
  next
    case None
    from valid_clean_nonbasic [OF cl v0 None]
    obtain ob where "cleaned_data f0 ''content_object'' = Some (VObj ob)" by blast
    then have "dict_get (cleaned_data f1) ''content_object'' = VObj ob"
      by (simp add: cd dict_get_def)
    then show ?thesis
      using None by (simp add: ut is_basic_type_def set_content_object_def)
  qed
qed

lemma UrlForm_clean_page_submission:
  "UrlForm_clean fresh_db (url_submission ''7'' ''3'' [] inst) =
     Inr ((url_submission ''7'' ''3'' [] inst)
            \<lparr>cleaned_data := (blank_other_types (VStr ''7'')
                 (cleaned_data (url_submission ''7'' ''3'' [] inst)))
                   (''content_object'' \<mapsto> VObj page)\<rparr>)"
proof -
  let ?f = "url_submission ''7'' ''3'' [] inst"
  have nb: "basic_type_of (dict_get (cleaned_data ?f) ''url_type'') = None"
    by (simp add: submission_entries basic_type_of_def not_basic_names)
  have co: "truthy (dict_get (cleaned_data ?f) ''content_object'')"
    by (simp add: submission_entries truthy_def)
  have oid: "int_of (VStr ''3'') = Inr 3" by (simp add: py_int_defs)
  have no: "\<not> url_exists_elsewhere fresh_db 7 3 VNone"
    by (simp add: url_exists_elsewhere_def fresh_db_def)
  show ?thesis
    by (simp add: UrlForm_clean_nonbasic [OF nb co] submission_entries UrlForm_clean_try_def
        lookup_page dict_get_blank not_basic_names truthy_def oid no)
qed

lemma valid_anchor_submission:
  "\<exists>f1. UrlForm_full_clean d (url_submission ''anchor'' [] ''top'' inst) = Inr f1
     \<and> is_valid f1 \<and> is_Url (form_instance f1) = is_Url inst
     \<and> url_grouper (form_instance f1) = url_grouper inst \<and> pk (form_instance f1) = pk inst"
  by (simp add: UrlForm_full_clean_def UrlForm_clean_anchor_submission is_valid_def construct_instance_frame
      construct_instance_grouper submission_entries UrlForm_fields_def)

lemma valid_page_submission:
  "\<exists>f1. UrlForm_full_clean fresh_db (url_submission ''7'' ''3'' [] inst) = Inr f1 \<and> is_valid f1"
  by (simp add: UrlForm_full_clean_def UrlForm_clean_page_submission is_valid_def construct_instance_frame
      submission_entries)

text \<open>
  C1. A submission to \<^verbatim>\<open>UrlForm\<close> is cleaned, the form is valid and is saved. Then
  \<^verbatim>\<open>save\<close> returns an instance, and on it: when \<^verbatim>\<open>url_type\<close> is the basic kind \<open>t\<close>,
  every other basic kind is the empty string, \<open>t\<close> itself is not empty, and the content
  type and object id of the generic reference are \<^verbatim>\<open>None\<close>; when \<^verbatim>\<open>url_type\<close> is no
  basic kind, the lookup has found an object, every basic kind is the empty string, and
  the generic reference is that object's content type and key.
\<close>

theorem UrlForm_save_one_value_source:
  assumes "form_fields f = UrlForm_fields"
    and "UrlForm_full_clean d f = Inr f1"
    and "is_valid f1"
  shows "\<exists>u d''. UrlForm_save commit d' f1 = Inr (u, d'')
     \<and> (\<forall>t. basic_type_of (dict_get (cleaned_data f) ''url_type'') = Some t \<longrightarrow>
           (\<forall>n \<in> set basic_type_names. n \<noteq> t \<longrightarrow> attrs u n = VStr [])
           \<and> truthy (attrs u t) \<and> content_type u = None \<and> object_id u = None)
     \<and> (basic_type_of (dict_get (cleaned_data f) ''url_type'') = None \<longrightarrow>
           (\<exists>ct ob. lookup_content_object d (dict_get (cleaned_data f) ''url_type'')
                       (dict_get (cleaned_data f) ''content_object'')
                       (dict_get (cleaned_data f) ''site'') = Inr (ct, ob)
              \<and> (\<forall>n \<in> set basic_type_names. attrs u n = VStr [])
              \<and> content_type u = Some (obj_ct ob) \<and> object_id u = Some (obj_pk ob)))"
proof -
  let ?ut = "dict_get (cleaned_data f) ''url_type''"
  obtain f0 where cl: "UrlForm_clean d f = Inr f0" and f1: "f1 = construct_instance f0"
    using assms(2) by (rule full_clean_Inr)
  have v0: "is_valid f0" using assms(3) by (simp add: f1 is_valid_construct)
  have ff: "form_fields f0 = UrlForm_fields" using UrlForm_clean_fields [OF cl] assms(1) by simp
  have cd: "cleaned_data f1 = cleaned_data f0" by (simp add: f1 construct_instance_frame)
  have ut: "dict_get (cleaned_data f1) ''url_type'' = ?ut"
    using UrlForm_clean_keeps [OF cl, of "''url_type''"]
    by (simp add: cd dict_get_def not_basic_names)
  have at: "\<And>n. n \<in> set basic_type_names \<Longrightarrow>
      attrs (form_instance f1) n =
        (case cleaned_data f0 n of None \<Rightarrow> attrs (form_instance f0) n | Some v \<Rightarrow> v)"
    unfolding f1 using ff by (rule construct_instance_attrs)
  show ?thesis
  proof (cases "basic_type_of ?ut")
    case (Some t)
    have t: "t \<in> set basic_type_names" using Some by (simp add: basic_type_of_Some)
    from valid_clean_basic [OF cl v0 Some]
    obtain v where v: "cleaned_data f0 t = Some v" "truthy v"
      and bl: "\<forall>n \<in> set basic_type_names. n \<noteq> t \<longrightarrow> cleaned_data f0 n = Some (VStr [])"
      by blast
    let ?u0 = "(form_instance f1)\<lparr>content_type := None, object_id := None\<rparr>"
    have sco: "set_content_object
           (if is_basic_type (dict_get (cleaned_data f1) ''url_type'') then VNone
            else dict_get (cleaned_data f1) ''content_object'') (form_instance f1) = Inr ?u0"
      using Some by (simp add: ut is_basic_type_def set_content_object_def)
    from UrlForm_save_frame [OF assms(3) sco, of commit d']
    obtain u d'' where sv: "UrlForm_save commit d' f1 = Inr (u, d'')"
      and fr: "attrs u = attrs ?u0" "content_type u = None" "object_id u = None"
      by auto
    have "\<forall>n \<in> set basic_type_names. n \<noteq> t \<longrightarrow> attrs u n = VStr []"
      using bl at by (simp add: fr)
    moreover have "truthy (attrs u t)" using v at [OF t] by (simp add: fr)
    ultimately show ?thesis using sv fr Some by simp
  next
    case None
    from valid_clean_nonbasic [OF cl v0 None]
    obtain ct ob where lk: "lookup_content_object d ?ut
          (dict_get (cleaned_data f) ''content_object'')
          (dict_get (cleaned_data f) ''site'') = Inr (ct, ob)"
      and co: "cleaned_data f0 ''content_object'' = Some (VObj ob)"
      and bl: "\<forall>n \<in> set basic_type_names. cleaned_data f0 n = Some (VStr [])"
      by blast
    let ?u0 = "(form_instance f1)\<lparr>content_type := Some (obj_ct ob),
      object_id := Some (obj_pk ob)\<rparr>"
    have sco: "set_content_object
           (if is_basic_type (dict_get (cleaned_data f1) ''url_type'') then VNone
            else dict_get (cleaned_data f1) ''content_object'') (form_instance f1) = Inr ?u0"
    proof -
      have "dict_get (cleaned_data f1) ''content_object'' = VObj ob"
        using co by (simp add: cd dict_get_def)
      then show ?thesis
        using None by (simp add: ut is_basic_type_def set_content_object_def)
    qed
    from UrlForm_save_frame [OF assms(3) sco, of commit d']
    obtain u d'' where sv: "UrlForm_save commit d' f1 = Inr (u, d'')"
      and fr: "attrs u = attrs ?u0" "content_type u = Some (obj_ct ob)"
        "object_id u = Some (obj_pk ob)"
      by auto
    have "\<forall>n \<in> set basic_type_names. attrs u n = VStr []"
      using bl at by (simp add: fr)
    then show ?thesis using sv fr None lk by simp
  qed
qed

theorem UrlForm_save_one_value_source_witness:
  "form_fields (url_submission ''anchor'' [] ''top'' new_url) = UrlForm_fields
   \<and> (\<exists>f1. UrlForm_full_clean example_db (url_submission ''anchor'' [] ''top'' new_url) = Inr f1
        \<and> is_valid f1
        \<and> (\<exists>u d'. UrlForm_save True example_db f1 = Inr (u, d')
              \<and> (\<forall>n \<in> set basic_type_names. n \<noteq> ''anchor'' \<longrightarrow> attrs u n = VStr [])
              \<and> truthy (attrs u ''anchor'') \<and> content_type u = None \<and> object_id u = None))
   \<and> form_fields (url_submission ''7'' ''3'' [] new_url) = UrlForm_fields
   \<and> (\<exists>f1. UrlForm_full_clean fresh_db (url_submission ''7'' ''3'' [] new_url) = Inr f1
        \<and> is_valid f1
        \<and> (\<exists>u d'. UrlForm_save True fresh_db f1 = Inr (u, d')
              \<and> (\<forall>n \<in> set basic_type_names. attrs u n = VStr [])
              \<and> content_type u = Some (obj_ct page) \<and> object_id u = Some (obj_pk page)))"
proof -
  let ?a = "url_submission ''anchor'' [] ''top'' new_url"
  let ?b = "url_submission ''7'' ''3'' [] new_url"
  have fa: "form_fields ?a = UrlForm_fields" and fb: "form_fields ?b = UrlForm_fields"
    by (simp_all add: submission_entries)
  obtain a1 where a1: "UrlForm_full_clean example_db ?a = Inr a1" and va: "is_valid a1"
    using valid_anchor_submission by blast
  obtain b1 where b1: "UrlForm_full_clean fresh_db ?b = Inr b1" and vb: "is_valid b1"
    using valid_page_submission by blast
  have ta: "basic_type_of (dict_get (cleaned_data ?a) ''url_type'') = Some ''anchor''"
    by (simp add: submission_entries basic_type_of_def basic_anchor)
  have tb: "basic_type_of (dict_get (cleaned_data ?b) ''url_type'') = None"
    by (simp add: submission_entries basic_type_of_def not_basic_names)
  have ra: "\<exists>u d'. UrlForm_save True example_db a1 = Inr (u, d')
              \<and> (\<forall>n \<in> set basic_type_names. n \<noteq> ''anchor'' \<longrightarrow> attrs u n = VStr [])
              \<and> truthy (attrs u ''anchor'') \<and> content_type u = None \<and> object_id u = None"
    using UrlForm_save_one_value_source [OF fa a1 va, of True example_db] ta by auto
  have rb: "\<exists>u d'. UrlForm_save True fresh_db b1 = Inr (u, d')
              \<and> (\<forall>n \<in> set basic_type_names. attrs u n = VStr [])
              \<and> content_type u = Some (obj_ct page) \<and> object_id u = Some (obj_pk page)"
    using UrlForm_save_one_value_source [OF fb b1 vb, of True fresh_db] tb
    by (auto simp: submission_entries lookup_page)
  show ?thesis using fa fb a1 va ra b1 vb rb by blast
qed

text \<open>
  C9. A submission to \<^verbatim>\<open>UrlForm\<close> is cleaned and the form is valid; its instance is a
  Url. Then \<^verbatim>\<open>save\<close> returns, with or without \<^verbatim>\<open>commit\<close>. When the instance had no
  UrlGrouper, the returned instance has one whose key was not in the table, and the table
  is the old one with that key added. When the instance had the UrlGrouper \<open>g\<close>, the
  returned instance has \<open>g\<close> and the table of UrlGroupers is as it was.
\<close>

theorem UrlForm_save_grouper:
  assumes "UrlForm_full_clean d0 f = Inr f1" and "is_valid f1"
    and "is_Url (form_instance f1)"
  shows "\<exists>u d'. UrlForm_save commit d f1 = Inr (u, d')
     \<and> (url_grouper (form_instance f1) = None \<longrightarrow>
          (\<exists>g. g \<notin> set (groupers d) \<and> groupers d' = groupers d @ [g] \<and> url_grouper u = Some g))
     \<and> (\<forall>g. url_grouper (form_instance f1) = Some g \<longrightarrow>
          url_grouper u = Some g \<and> groupers d' = groupers d)"
proof -
  from valid_set_content_object [OF assms(1,2)]
  obtain u0 where sco: "set_content_object
           (if is_basic_type (dict_get (cleaned_data f1) ''url_type'') then VNone
            else dict_get (cleaned_data f1) ''content_object'') (form_instance f1) = Inr u0"
    and g0: "url_grouper u0 = url_grouper (form_instance f1)" and iu: "is_Url u0"
    using assms(3) by auto
  obtain u1 d1 where cg: "create_grouper d u0 = (u1, d1)" by (cases "create_grouper d u0")
  obtain u2 d2 where us: "url_save d1 u1 = (u2, d2)" by (cases "url_save d1 u1")
  have sv: "UrlForm_save commit d f1 = Inr (if commit then (u2, d2) else (u1, d1))"
    using UrlForm_save_valid [OF assms(2) sco, of commit d] by (simp add: cg us)
  have fr: "url_grouper u2 = url_grouper u1" "groupers d2 = groupers d1"
    using url_save_frame [OF us] by simp_all
  show ?thesis
  proof (cases "url_grouper (form_instance f1)")
    case None
    then have "d1 = d\<lparr>groupers := groupers d @ [next_pk (groupers d)]\<rparr>"
      and "u1 = u0\<lparr>url_grouper := Some (next_pk (groupers d))\<rparr>"
      using create_grouper_cases [OF cg] iu g0 by simp_all
    then show ?thesis
      using sv fr None next_pk_fresh [of "groupers d"] by (cases commit) auto
  next
    case (Some g)
    then have "d1 = d" "u1 = u0"
      using create_grouper_cases [OF cg] g0 by simp_all
    then show ?thesis
      using sv fr Some g0 by (cases commit) auto
  qed
qed

theorem UrlForm_save_grouper_witness:
  "(\<exists>f1. UrlForm_full_clean example_db (url_submission ''anchor'' [] ''top'' new_url) = Inr f1
       \<and> is_valid f1 \<and> is_Url (form_instance f1) \<and> url_grouper (form_instance f1) = None
       \<and> (\<exists>u d' g. UrlForm_save True example_db f1 = Inr (u, d')
             \<and> g \<notin> set (groupers example_db) \<and> groupers d' = groupers example_db @ [g]
             \<and> url_grouper u = Some g))
   \<and> (\<exists>f1. UrlForm_full_clean example_db (url_submission ''anchor'' [] ''top'' grouped_url) = Inr f1
       \<and> is_valid f1 \<and> is_Url (form_instance f1) \<and> url_grouper (form_instance f1) = Some 1
       \<and> (\<exists>u d'. UrlForm_save True example_db f1 = Inr (u, d')
             \<and> url_grouper u = Some 1 \<and> groupers d' = groupers example_db))"
proof -
  obtain a1 where a:
      "UrlForm_full_clean example_db (url_submission ''anchor'' [] ''top'' new_url) = Inr a1"
      "is_valid a1" "is_Url (form_instance a1)" "url_grouper (form_instance a1) = None"
    using valid_anchor_submission [of example_db new_url] by (auto simp: new_url_def)
  obtain b1 where b:
      "UrlForm_full_clean example_db (url_submission ''anchor'' [] ''top'' grouped_url) = Inr b1"
      "is_valid b1" "is_Url (form_instance b1)" "url_grouper (form_instance b1) = Some 1"
    using valid_anchor_submission [of example_db grouped_url]
    by (auto simp: new_url_def grouped_url_def)
  have ra: "\<exists>u d' g. UrlForm_save True example_db a1 = Inr (u, d')
             \<and> g \<notin> set (groupers example_db) \<and> groupers d' = groupers example_db @ [g]
             \<and> url_grouper u = Some g"
    using UrlForm_save_grouper [OF a(1,2,3), of True example_db] a(4) by auto
  have rb: "\<exists>u d'. UrlForm_save True example_db b1 = Inr (u, d')
             \<and> url_grouper u = Some 1 \<and> groupers d' = groupers example_db"
    using UrlForm_save_grouper [OF b(1,2,3), of True example_db] b(4) by auto
  show ?thesis using a b ra rb by blast
qed

text \<open>
  C10. A submission to \<^verbatim>\<open>UrlForm\<close> is cleaned and the form is valid; its instance is a
  Url without a UrlGrouper. Then \<^verbatim>\<open>save(commit=False)\<close> returns an instance and a
  database that is the old one with one new key in the table of UrlGroupers and no other
  change: the rows of Url and UrlOverride and the content types are as they were. The
  returned instance has the new UrlGrouper and the key it had, so it has not been saved.
\<close>

theorem UrlForm_save_no_commit:
  assumes "UrlForm_full_clean d0 f = Inr f1" and "is_valid f1"
    and "is_Url (form_instance f1)" and "url_grouper (form_instance f1) = None"
  shows "\<exists>u g. UrlForm_save False d f1 = Inr (u, d\<lparr>groupers := groupers d @ [g]\<rparr>)
     \<and> g \<notin> set (groupers d) \<and> url_grouper u = Some g \<and> pk u = pk (form_instance f1)"
proof -
  from valid_set_content_object [OF assms(1,2)]
  obtain u0 where sco: "set_content_object
           (if is_basic_type (dict_get (cleaned_data f1) ''url_type'') then VNone
            else dict_get (cleaned_data f1) ''content_object'') (form_instance f1) = Inr u0"
    and g0: "url_grouper u0 = None" and iu: "is_Url u0" and p0: "pk u0 = pk (form_instance f1)"
    using assms(3,4) by auto
  have "create_grouper d u0 =
      (u0\<lparr>url_grouper := Some (next_pk (groupers d))\<rparr>,
       d\<lparr>groupers := groupers d @ [next_pk (groupers d)]\<rparr>)"
    using g0 iu by (simp add: create_grouper_def create_UrlGrouper_def Let_def)
  then have "UrlForm_save False d f1 =
      Inr (u0\<lparr>url_grouper := Some (next_pk (groupers d))\<rparr>,
           d\<lparr>groupers := groupers d @ [next_pk (groupers d)]\<rparr>)"
    using UrlForm_save_valid [OF assms(2) sco, of False d] by simp
  then show ?thesis
    using next_pk_fresh [of "groupers d"] p0 by auto
qed

theorem UrlForm_save_no_commit_witness:
  "\<exists>f1. UrlForm_full_clean example_db (url_submission ''anchor'' [] ''top'' new_url) = Inr f1
       \<and> is_valid f1 \<and> is_Url (form_instance f1) \<and> url_grouper (form_instance f1) = None
       \<and> (\<exists>u g. UrlForm_save False example_db f1
                    = Inr (u, example_db\<lparr>groupers := groupers example_db @ [g]\<rparr>)
             \<and> g \<notin> set (groupers example_db) \<and> url_grouper u = Some g \<and> pk u = None)"
proof -
  obtain a1 where a:
      "UrlForm_full_clean example_db (url_submission ''anchor'' [] ''top'' new_url) = Inr a1"
      "is_valid a1" "is_Url (form_instance a1)" "url_grouper (form_instance a1) = None"
      "pk (form_instance a1) = None"
    using valid_anchor_submission [of example_db new_url] by (auto simp: new_url_def)
  show ?thesis
    using a UrlForm_save_no_commit [OF a(1,2,3,4), of example_db] by auto
qed

end
